theory Spec2Isabelle
  imports Complex_Main
begin

section \<open>Latent dynamics reference classes: a shallow embedding\<close>

text \<open>
  The development follows \<^verbatim>\<open>LatentDynamicsReferenceClasses.py\<close>. Tensors are nested
  lists, Python integers are \<open>int\<close>, floating-point numbers are idealised as \<open>real\<close>,
  and every raise of the source is the \<open>Inl\<close> branch of a sum.
  Library components (attention layers, optimiser, augmentation, random draws) are
  parameters of the definitions that call them.
\<close>

subsection \<open>Errors and Python indexing\<close>

datatype error = IndexError | KeyError | ZeroDivisionError | AssertionError | RuntimeError

definition py_index :: "'a list \<Rightarrow> int \<Rightarrow> error + 'a" where
  \<comment> \<open>\<^verbatim>\<open>xs[i]\<close>: offsets from \<open>-len\<close> to \<open>-1\<close> count from the end; anything out of range
      raises.\<close>
  "py_index xs i =
     (if 0 \<le> i \<and> i < int (length xs) then Inr (xs ! nat i)
      else if - int (length xs) \<le> i \<and> i < 0 then Inr (xs ! nat (int (length xs) + i))
      else Inl IndexError)"

fun select_time :: "'img list list \<Rightarrow> int \<Rightarrow> error + 'img list" where
  \<comment> \<open>\<^verbatim>\<open>obs[:, k]\<close> on a tensor indexed by sample, then by time offset.\<close>
  "select_time [] k = Inr []"
| "select_time (s # ss) k =
     (case py_index s k of
        Inl e \<Rightarrow> Inl e
      | Inr x \<Rightarrow> (case select_time ss k of Inl e \<Rightarrow> Inl e | Inr xs \<Rightarrow> Inr (x # xs)))"

subsection \<open>Transition batches\<close>

text \<open>
  A \<^verbatim>\<open>TensorDict\<close> batch: \<open>obs\<close> is indexed by sample and time offset; the action fields
  are absent until a labeling operation stores them. The dictionary a model call returns
  has \<^verbatim>\<open>"la"\<close> and, in evaluation mode, \<^verbatim>\<open>"la_flat"\<close>.
\<close>

record ('img, 'la, 'flat, 'mask) tensordict =
  obs :: "'img list list"
  la :: "'la option"
  la_flat :: "'flat option"
  la_mask :: "'mask option"

record ('la, 'flat) action_dict =
  ad_la :: 'la
  ad_la_flat :: "'flat option"

subsection \<open>IDM labeling\<close>

text \<open>
  \<^verbatim>\<open>IDM.label\<close>: the model call \<^verbatim>\<open>self(x_before, x_after)\<close> is the parameter \<open>fwd\<close>;
  \<^verbatim>\<open>batch.update\<close> stores the fields of the dictionary it returns.
\<close>

definition IDM_label ::
  "('img list \<Rightarrow> 'img list \<Rightarrow> error + ('la, 'flat) action_dict) \<Rightarrow>
   ('img, 'la, 'flat, 'mask) tensordict \<Rightarrow> error + ('img, 'la, 'flat, 'mask) tensordict" where
  "IDM_label fwd batch =
     (case select_time (obs batch) (- 2) of
        Inl e \<Rightarrow> Inl e
      | Inr x_before \<Rightarrow>
          (case select_time (obs batch) (- 1) of
             Inl e \<Rightarrow> Inl e
           | Inr x_after \<Rightarrow>
               (case fwd x_before x_after of
                  Inl e \<Rightarrow> Inl e
                | Inr action_dict \<Rightarrow>
                    Inr (batch\<lparr>la := Some (ad_la action_dict),
                           la_flat := (case ad_la_flat action_dict of
                                         None \<Rightarrow> la_flat batch
                                       | Some v \<Rightarrow> Some v)\<rparr>))))"

text \<open>
  \<^verbatim>\<open>IDM.label_chunked\<close>. The inner \<^verbatim>\<open>_label\<close> binds \<^verbatim>\<open>after_obs\<close> to offset \<open>-2\<close> and
  \<^verbatim>\<open>before_obs\<close> to offset \<open>-1\<close>, then calls \<^verbatim>\<open>self(before_obs, after_obs)\<close>.
  \<^verbatim>\<open>normalize_obs\<close> is not part of the source file and is a parameter. The model call
  returns one prediction per sample of the chunk; \<^verbatim>\<open>torch.cat\<close> joins the chunks.
\<close>

definition label_chunk ::
  "('img list \<Rightarrow> 'img list) \<Rightarrow> ('img list \<Rightarrow> 'img list \<Rightarrow> error + 'pred list) \<Rightarrow>
   'img list list \<Rightarrow> error + 'pred list" where
  "label_chunk normalize_obs fwd data_batch =
     (case select_time data_batch (- 2) of
        Inl e \<Rightarrow> Inl e
      | Inr o2 \<Rightarrow>
          (case select_time data_batch (- 1) of
             Inl e \<Rightarrow> Inl e
           | Inr o1 \<Rightarrow>
               (let after_obs = normalize_obs o2;
                    before_obs = normalize_obs o1
                in fwd before_obs after_obs)))"

function split_chunks :: "nat \<Rightarrow> 'a list \<Rightarrow> 'a list list" where
  \<comment> \<open>\<^verbatim>\<open>data.split(chunksize)\<close> along the batch dimension, for a positive chunk size.\<close>
  "split_chunks n xs =
     (if n = 0 \<or> length xs \<le> n then [xs] else take n xs # split_chunks n (drop n xs))"
  by pat_completeness auto
termination
  by (relation "measure (\<lambda>(n, xs). length xs)") auto

declare split_chunks.simps [simp del]

fun label_chunks ::
  "('img list \<Rightarrow> 'img list) \<Rightarrow> ('img list \<Rightarrow> 'img list \<Rightarrow> error + 'pred list) \<Rightarrow>
   'img list list list \<Rightarrow> error + 'pred list" where
  "label_chunks normalize_obs fwd [] = Inr []"
| "label_chunks normalize_obs fwd (c # cs) =
     (case label_chunk normalize_obs fwd c of
        Inl e \<Rightarrow> Inl e
      | Inr out \<Rightarrow>
          (case label_chunks normalize_obs fwd cs of
             Inl e \<Rightarrow> Inl e
           | Inr outs \<Rightarrow> Inr (out @ outs)))"

definition label_chunked ::
  "('img list \<Rightarrow> 'img list) \<Rightarrow> ('img list \<Rightarrow> 'img list \<Rightarrow> error + 'pred list) \<Rightarrow> int \<Rightarrow>
   ('img, 'pred list, 'flat, 'mask) tensordict \<Rightarrow>
   error + ('img, 'pred list, 'flat, 'mask) tensordict" where
  "label_chunked normalize_obs fwd chunksize data =
     (if chunksize \<le> 0 then Inl RuntimeError
      else (case label_chunks normalize_obs fwd (split_chunks (nat chunksize) (obs data)) of
              Inl e \<Rightarrow> Inl e
            | Inr action_dicts \<Rightarrow> Inr (data\<lparr>la := Some action_dicts\<rparr>)))"

subsection \<open>Parameters shared between modules\<close>

text \<open>
  A parameter is identified by its address. \<^verbatim>\<open>get_unique_params\<close> builds the two sets of
  parameters, takes their union and lists it; the order of that list is not fixed by
  Python, and is taken to be increasing here.
\<close>

definition get_unique_params :: "nat list \<Rightarrow> nat list \<Rightarrow> nat list" where
  "get_unique_params params1 params2 = sorted_list_of_set (set params1 \<union> set params2)"

subsection \<open>VisionEncoder construction\<close>









subsection \<open>Learning-rate schedule\<close>

definition INITIAL_LR :: real where "INITIAL_LR = 1 / 10000000"
definition PEAK_LR :: real where "PEAK_LR = 1 / 10000"
definition FINAL_LR :: real where "FINAL_LR = 3 / 100000"

definition warmup_steps :: "int \<Rightarrow> int" where
  \<comment> \<open>\<^verbatim>\<open>int(0.15 * total_steps)\<close>: truncation towards zero.\<close>
  "warmup_steps total_steps =
     (if 0 \<le> total_steps then (15 * total_steps) div 100
      else - ((15 * (- total_steps)) div 100))"

definition lr_lambda :: "int \<Rightarrow> int \<Rightarrow> error + real" where
  "lr_lambda total_steps step =
     (if step < warmup_steps total_steps then
        (if warmup_steps total_steps = 0 then Inl ZeroDivisionError
         else Inr ((PEAK_LR - INITIAL_LR) / INITIAL_LR
                     * (real_of_int step / real_of_int (warmup_steps total_steps)) + 1))
      else
        (if total_steps - warmup_steps total_steps = 0 then Inl ZeroDivisionError
         else (let progress = real_of_int (step - warmup_steps total_steps)
                                / real_of_int (total_steps - warmup_steps total_steps);
                   cosine_decay = 0.5 * (1 + cos (pi * progress + pi))
               in Inr ((PEAK_LR + (FINAL_LR - PEAK_LR) * cosine_decay) / INITIAL_LR))))"

definition scheduled_lr :: "int \<Rightarrow> int \<Rightarrow> error + real" where
  \<comment> \<open>\<^verbatim>\<open>LambdaLR\<close> over an optimiser built with \<^verbatim>\<open>lr=INITIAL_LR\<close>: the rate at a step is
      the base rate times \<^verbatim>\<open>lr_lambda(step)\<close>.\<close>
  "scheduled_lr total_steps step =
     (case lr_lambda total_steps step of Inl e \<Rightarrow> Inl e | Inr f \<Rightarrow> Inr (INITIAL_LR * f))"


subsection \<open>Parameters on a heap\<close>

text \<open>
  A parameter object has its tensor, its \<^verbatim>\<open>requires_grad\<close> flag and its \<^verbatim>\<open>grad\<close> field.
  The heap lists the parameter objects; an address is an index into it, so two modules
  that hold the same address share the parameter. Tensors are elements of a real vector
  space.
\<close>

record 't param =
  data :: 't
  requires_grad :: bool
  grad :: "'t option"

type_synonym 't heap = "'t param list"

definition new_params :: "'t list \<Rightarrow> 't heap \<Rightarrow> nat list \<times> 't heap" where
  \<comment> \<open>Fresh trainable parameters with the given initial values.\<close>
  "new_params vals h =
     ([length h..<length h + length vals],
      h @ map (\<lambda>v. \<lparr>data = v, requires_grad = True, grad = None\<rparr>) vals)"

definition deepcopy :: "nat list \<Rightarrow> 't heap \<Rightarrow> nat list \<times> 't heap" where
  \<comment> \<open>\<^verbatim>\<open>copy.deepcopy\<close> of a module: new parameter objects with cloned data and the same
      flag.\<close>
  "deepcopy ps h =
     ([length h..<length h + length ps],
      h @ map (\<lambda>p. \<lparr>data = data (h ! p), requires_grad = requires_grad (h ! p),
                     grad = None\<rparr>) ps)"

definition foreach_param :: "(nat \<Rightarrow> 't param \<Rightarrow> 't param) \<Rightarrow> nat list \<Rightarrow> 't heap \<Rightarrow> 't heap" where
  \<comment> \<open>\<^verbatim>\<open>for p in params: <update p in place>\<close>.\<close>
  "foreach_param f ps h = fold (\<lambda>p h. h[p := f p (h ! p)]) ps h"

definition set_requires_grad :: "bool \<Rightarrow> nat list \<Rightarrow> 't heap \<Rightarrow> 't heap" where
  \<comment> \<open>\<^verbatim>\<open>module.requires_grad_(b)\<close> over the parameters of a module.\<close>
  "set_requires_grad b = foreach_param (\<lambda>a p. p\<lparr>requires_grad := b\<rparr>)"

record world_model =
  wm_encoder :: "nat list"
  wm_ema_encoder :: "nat list"
  wm_action_encoder :: "nat list"
  wm_decoder :: "nat list"

record idm_model =
  idm_mask_token :: nat
  idm_drop_token :: nat
  idm_encoder :: "nat list"
  idm_ema_encoder :: "nat list"
  idm_transformer :: "nat list"
  idm_action_head :: "nat list"

record 't init_values =
  encoder_init :: "'t list"
  action_encoder_init :: "'t list"
  decoder_init :: "'t list"
  transformer_init :: "'t list"
  mask_token_init :: 't
  drop_token_init :: 't
  action_head_init :: "'t list"

definition WorldModel_init :: "'t init_values \<Rightarrow> 't heap \<Rightarrow> world_model \<times> 't heap" where
  \<comment> \<open>The parameter side of \<^verbatim>\<open>WorldModel.__init__\<close>: the encoder, its deep copy with
      gradients switched off, the action encoder and the decoder.\<close>
  "WorldModel_init iv h =
     (let (enc, h1) = new_params (encoder_init iv) h;
          (ema, h2) = deepcopy enc h1;
          h3 = set_requires_grad False ema h2;
          (act, h4) = new_params (action_encoder_init iv) h3;
          (dec, h5) = new_params (decoder_init iv) h4
      in (\<lparr>wm_encoder = enc, wm_ema_encoder = ema, wm_action_encoder = act,
            wm_decoder = dec\<rparr>, h5))"

definition IDM_init ::
  "nat list \<Rightarrow> nat list \<Rightarrow> 't init_values \<Rightarrow> 't heap \<Rightarrow> idm_model \<times> 't heap" where
  \<comment> \<open>The parameter side of \<^verbatim>\<open>IDM.__init__\<close>: the two encoders are the objects passed in.\<close>
  "IDM_init encoder ema_encoder iv h =
     (let h1 = set_requires_grad False ema_encoder h;
          (tr, h2) = new_params (transformer_init iv) h1;
          (mask, h3) = new_params [mask_token_init iv] h2;
          (drop, h4) = new_params [drop_token_init iv] h3;
          (head, h5) = new_params (action_head_init iv) h4
      in (\<lparr>idm_mask_token = length h2, idm_drop_token = length h3,
            idm_encoder = encoder, idm_ema_encoder = ema_encoder,
            idm_transformer = tr, idm_action_head = head\<rparr>, h5))"

definition WorldModel_parameters :: "world_model \<Rightarrow> nat list" where
  \<comment> \<open>\<^verbatim>\<open>wm.parameters()\<close>: every parameter of the submodules, each object once.\<close>
  "WorldModel_parameters wm =
     remdups (wm_encoder wm @ wm_ema_encoder wm @ wm_action_encoder wm @ wm_decoder wm)"

definition IDM_parameters :: "idm_model \<Rightarrow> nat list" where
  "IDM_parameters idm =
     remdups ([idm_mask_token idm, idm_drop_token idm] @ idm_encoder idm @
              idm_ema_encoder idm @ idm_transformer idm @ idm_action_head idm)"

definition create_dynamics_models ::
  "'t init_values \<Rightarrow> 't heap \<Rightarrow> idm_model \<times> world_model \<times> 't heap" where
  "create_dynamics_models iv h =
     (let (wm, h1) = WorldModel_init iv h;
          encoder = wm_encoder wm;
          ema_encoder = wm_ema_encoder wm;
          (idm, h2) = IDM_init encoder ema_encoder iv h1
      in (idm, wm, h2))"

subsection \<open>EMA update\<close>

definition ema_assign :: "real \<Rightarrow> nat \<times> nat \<Rightarrow> ('t::real_vector) heap \<Rightarrow> 't heap" where
  \<comment> \<open>The loop body: \<^verbatim>\<open>ema_param.data.mul_(momentum).add_(param.data * (1 - momentum))\<close>.\<close>
  "ema_assign momentum = (\<lambda>(ema_param, param) h.
     h[ema_param := (h ! ema_param)
         \<lparr>data := momentum *\<^sub>R data (h ! ema_param)
                  + (1 - momentum) *\<^sub>R data (h ! param)\<rparr>])"

definition update_ema :: "real \<Rightarrow> world_model \<Rightarrow> ('t::real_vector) heap \<Rightarrow> 't heap" where
  \<comment> \<open>\<^verbatim>\<open>for ema_param, param in zip(ema_encoder.parameters(), encoder.parameters())\<close>.\<close>
  "update_ema momentum wm h =
     fold (ema_assign momentum) (zip (wm_ema_encoder wm) (wm_encoder wm)) h"

text \<open>
  Address invariants of a world model on a heap: the EMA parameters are objects of their
  own (a deep copy), one per encoder parameter; and they are frozen when none requires
  or holds a gradient.
\<close>

definition wm_wf :: "world_model \<Rightarrow> 't heap \<Rightarrow> bool" where
  "wm_wf wm h =
     (distinct (wm_ema_encoder wm) \<and>
      set (wm_ema_encoder wm) \<inter> set (wm_encoder wm) = {} \<and>
      length (wm_ema_encoder wm) = length (wm_encoder wm) \<and>
      (\<forall>a\<in>set (wm_ema_encoder wm). a < length h))"

definition ema_frozen :: "world_model \<Rightarrow> 't heap \<Rightarrow> bool" where
  "ema_frozen wm h =
     (\<forall>a\<in>set (wm_ema_encoder wm). \<not> requires_grad (h ! a) \<and> grad (h ! a) = None)"

subsection \<open>Training step\<close>

datatype event =
  IdmLabel | WmLabel | OptimizerZeroGrad | Backward | OptimizerStep | UpdateEma
  | Logger | ModuleZeroGrad | SchedulerStep

record 't train_state =
  heap :: "'t heap"
  calls :: "event list"

definition zero_grad :: "nat list \<Rightarrow> 't heap \<Rightarrow> 't heap" where
  "zero_grad = foreach_param (\<lambda>a p. p\<lparr>grad := None\<rparr>)"

definition backward :: "(nat \<Rightarrow> 't option) \<Rightarrow> ('t::real_vector) heap \<Rightarrow> 't heap" where
  \<comment> \<open>\<^verbatim>\<open>loss.backward()\<close>: \<open>g a\<close> is the gradient of the loss at the leaf \<open>a\<close>, if the leaf
      is in the graph; only leaves that require gradients accumulate it.\<close>
  "backward g h =
     map (\<lambda>a. if requires_grad (h ! a)
               then (case g a of
                       None \<Rightarrow> h ! a
                     | Some d \<Rightarrow> (h ! a)\<lparr>grad := Some (case grad (h ! a) of
                                                          None \<Rightarrow> d
                                                        | Some d0 \<Rightarrow> d0 + d)\<rparr>)
               else h ! a)
         [0..<length h]"

definition optimizer_step ::
  "(nat \<Rightarrow> 't \<Rightarrow> 't \<Rightarrow> 't) \<Rightarrow> nat list \<Rightarrow> 't heap \<Rightarrow> 't heap" where
  \<comment> \<open>\<^verbatim>\<open>optimizer.step()\<close>: a parameter without a gradient is skipped; \<open>upd\<close> is the
      optimiser's update rule.\<close>
  "optimizer_step upd =
     foreach_param (\<lambda>a p. case grad p of None \<Rightarrow> p | Some d \<Rightarrow> p\<lparr>data := upd a (data p) d\<rparr>)"

definition start_momentum :: real where "start_momentum = 0.99"

definition after_backward ::
  "(nat \<Rightarrow> 't option) \<Rightarrow> nat list \<Rightarrow> ('t::real_vector) heap \<Rightarrow> 't heap" where
  \<comment> \<open>The heap of a training step once \<^verbatim>\<open>loss.backward()\<close> has returned.\<close>
  "after_backward g optimizer h = backward g (zero_grad optimizer h)"

definition after_optimizer_step ::
  "(nat \<Rightarrow> 't option) \<Rightarrow> (nat \<Rightarrow> 't \<Rightarrow> 't \<Rightarrow> 't) \<Rightarrow> nat list \<Rightarrow> ('t::real_vector) heap \<Rightarrow> 't heap" where
  "after_optimizer_step g upd optimizer h =
     optimizer_step upd optimizer (after_backward g optimizer h)"

definition train_step ::
  "(nat \<Rightarrow> nat \<Rightarrow> 't option) \<Rightarrow> (nat \<Rightarrow> nat \<Rightarrow> 't \<Rightarrow> 't \<Rightarrow> 't) \<Rightarrow> idm_model \<Rightarrow> world_model \<Rightarrow>
   nat list \<Rightarrow> nat \<Rightarrow> ('t::real_vector) train_state \<Rightarrow> 't train_state" where
  \<comment> \<open>\<^verbatim>\<open>train_step(index)\<close>. The two labeling calls build the loss and change no
      parameter; \<open>g index\<close> gives the gradients of that loss.\<close>
  "train_step g upd idm wm optimizer index st =
     (let momentum = start_momentum;
          h3 = after_optimizer_step (g index) (upd index) optimizer (heap st);
          h4 = update_ema momentum wm h3;
          h5 = zero_grad (WorldModel_parameters wm) h4;
          h6 = zero_grad (IDM_parameters idm) h5
      in \<lparr>heap = h6,
          calls = calls st @ [IdmLabel, WmLabel, OptimizerZeroGrad, Backward, OptimizerStep,
                              UpdateEma, Logger, ModuleZeroGrad, ModuleZeroGrad]\<rparr>)"

definition scheduler_step :: "'t train_state \<Rightarrow> 't train_state" where
  "scheduler_step st = st\<lparr>calls := calls st @ [SchedulerStep]\<rparr>"

fun training_run ::
  "(nat \<Rightarrow> nat \<Rightarrow> 't option) \<Rightarrow> (nat \<Rightarrow> nat \<Rightarrow> 't \<Rightarrow> 't \<Rightarrow> 't) \<Rightarrow> idm_model \<Rightarrow> world_model \<Rightarrow>
   nat list \<Rightarrow> nat \<Rightarrow> ('t::real_vector) train_state \<Rightarrow> 't train_state" where
  \<comment> \<open>The first \<open>k\<close> iterations of \<^verbatim>\<open>for step in range(...): train_step(step);
      scheduler.step()\<close>.\<close>
  "training_run g upd idm wm optimizer 0 st = st"
| "training_run g upd idm wm optimizer (Suc k) st =
     scheduler_step
       (train_step g upd idm wm optimizer k (training_run g upd idm wm optimizer k st))"


subsection \<open>Vision encoder forward pass\<close>

text \<open>
  A batch tensor of shape \<open>[B, S, E]\<close> is a list of samples, each a list of \<open>S\<close> patch
  embeddings of an abstract type. An encoder layer is a function on such batches.
\<close>

fun layer_outputs :: "('x \<Rightarrow> 'x) list \<Rightarrow> 'x \<Rightarrow> 'x list" where
  \<comment> \<open>The loop of \<^verbatim>\<open>run_transformer\<close>: each layer consumes the previous layer's output
      and every output is retained.\<close>
  "layer_outputs [] x = []"
| "layer_outputs (layer # layers) x = (let y = layer x in y # layer_outputs layers y)"

definition run_transformer ::
  "('e list list \<Rightarrow> 'e list list) list \<Rightarrow> 'e list list \<Rightarrow> error + 'e list list list" where
  \<comment> \<open>\<^verbatim>\<open>torch.cat(layer_outputs, dim=1)\<close> raises on an empty list; the result is indexed
      by sample, layer, patch.\<close>
  "run_transformer layers x =
     (if layers = [] then Inl RuntimeError
      else Inr (map (\<lambda>b. map (\<lambda>out. out ! b) (layer_outputs layers x)) [0..<length x]))"

definition dim1 :: "'a list list \<Rightarrow> nat" where
  \<comment> \<open>\<^verbatim>\<open>t.shape[1]\<close>, read off the first sample.\<close>
  "dim1 t = (case t of [] \<Rightarrow> 0 | r # rs \<Rightarrow> length r)"

definition dim2 :: "'a list list list \<Rightarrow> nat" where
  "dim2 t = (case t of [] \<Rightarrow> 0 | r # rs \<Rightarrow> dim1 r)"

definition dim3 :: "'a list list list list \<Rightarrow> nat" where
  "dim3 t = (case t of [] \<Rightarrow> 0 | r # rs \<Rightarrow> dim2 r)"

definition to_patch_major :: "nat \<Rightarrow> nat \<Rightarrow> 'e list list \<Rightarrow> 'e list list" where
  \<comment> \<open>\<^verbatim>\<open>enc.transpose(1, 2).reshape(B, n, depth, embed_dim)\<close> on one sample: from
      layer-major to patch-major.\<close>
  "to_patch_major n depth enc = map (\<lambda>k. map (\<lambda>d. enc ! d ! k) [0..<depth]) [0..<n]"

subsection \<open>IDM vision context\<close>

definition py_int :: "real \<Rightarrow> int" where
  \<comment> \<open>\<^verbatim>\<open>int(x)\<close> on a float: truncation towards zero.\<close>
  "py_int x = (if 0 \<le> x then \<lfloor>x\<rfloor> else \<lceil>x\<rceil>)"

definition top_k_of :: "nat \<Rightarrow> real \<Rightarrow> int" where
  \<comment> \<open>\<^verbatim>\<open>max(1, int(P * self.top_pct))\<close>.\<close>
  "top_k_of P top_pct = max 1 (py_int (real P * top_pct))"

definition topk_smallest :: "int \<Rightarrow> real list \<Rightarrow> error + nat list" where
  \<comment> \<open>\<^verbatim>\<open>row.topk(k, largest=False)\<close>: the indices of the \<open>k\<close> smallest entries; \<open>k\<close> beyond
      the row length raises.\<close>
  "topk_smallest k row =
     (if k < 0 \<or> int (length row) < k then Inl RuntimeError
      else Inr (take (nat k) (sort_key (\<lambda>i. row ! i) [0..<length row])))"

definition keep_mask_of :: "nat \<Rightarrow> nat list \<Rightarrow> bool list" where
  \<comment> \<open>\<^verbatim>\<open>keep_mask = zeros(P); keep_mask[idxs] = True\<close> for one sample.\<close>
  "keep_mask_of P idxs = fold (\<lambda>i m. m[i := True]) idxs (replicate P False)"

definition scatter_rows :: "nat list \<Rightarrow> 'r list \<Rightarrow> 'r list \<Rightarrow> 'r list" where
  \<comment> \<open>\<^verbatim>\<open>full.scatter_(1, idxs, src)\<close> for one sample: row \<open>k\<close> of \<open>src\<close> is written at
      position \<open>idxs[k]\<close>.\<close>
  "scatter_rows idxs src full =
     fold (\<lambda>(k, i) f. f[i := src ! k]) (zip [0..<length idxs] idxs) full"

fun sample_indices :: "int \<Rightarrow> real list list \<Rightarrow> error + nat list list" where
  \<comment> \<open>\<^verbatim>\<open>rand_vals.topk(top_k, largest=False)\<close> row by row.\<close>
  "sample_indices k [] = Inr []"
| "sample_indices k (row # rows) =
     (case topk_smallest k row of
        Inl e \<Rightarrow> Inl e
      | Inr idx \<Rightarrow>
          (case sample_indices k rows of Inl e \<Rightarrow> Inl e | Inr rest \<Rightarrow> Inr (idx # rest)))"

record 'e after_branch =
  ab_idxs :: "nat list list"
  ab_keep_mask :: "bool list list"
  ab_kept :: "'e list list list"
  ab_ctx :: "'e list list list"

definition after_branch_training ::
  "('e list list \<Rightarrow> 'e list list) list \<Rightarrow> 'e list \<Rightarrow> real \<Rightarrow>
   (nat \<Rightarrow> nat \<Rightarrow> real) \<Rightarrow> 'e list list \<Rightarrow> error + 'e after_branch" where
  \<comment> \<open>The training path of \<^verbatim>\<open>_encode_vision_context\<close> for the after image: \<open>rand b p\<close> is
      entry \<open>(b, p)\<close> of \<^verbatim>\<open>torch.rand(B, P)\<close>, \<open>drop_token\<close> is the drop token reshaped to one
      embedding per layer, and \<^verbatim>\<open>self.depth\<close> is the number of layers of the encoder.\<close>
  "after_branch_training layers drop_token top_pct rand after_patch =
     (let B = length after_patch;
          P = dim1 after_patch;
          depth = length layers;
          top_k = top_k_of P top_pct;
          rand_vals = map (\<lambda>b. map (rand b) [0..<P]) [0..<B]
      in (case sample_indices top_k rand_vals of
            Inl e \<Rightarrow> Inl e
          | Inr idxs \<Rightarrow>
              (let keep_mask = map (keep_mask_of P) idxs;
                   after_patch_kept = map2 (\<lambda>ix patches. map (\<lambda>i. patches ! i) ix) idxs after_patch
               in (case run_transformer layers after_patch_kept of
                     Inl e \<Rightarrow> Inl e
                   | Inr after_enc_kept \<Rightarrow>
                       (let after_ctx_kept = map (to_patch_major (nat top_k) depth) after_enc_kept;
                            full_after = replicate B (replicate P drop_token);
                            after_ctx = map (\<lambda>b. scatter_rows (idxs ! b) (after_ctx_kept ! b)
                                                   (full_after ! b)) [0..<B]
                        in Inr \<lparr>ab_idxs = idxs, ab_keep_mask = keep_mask,
                                ab_kept = after_ctx_kept, ab_ctx = after_ctx\<rparr>)))))"

definition interleave :: "'e list \<Rightarrow> 'e list \<Rightarrow> 'e list" where
  \<comment> \<open>\<^verbatim>\<open>torch.stack([before, after], dim=3)\<close> reshaped to \<open>2 * depth\<close> blocks for one patch.\<close>
  "interleave before after = concat (map2 (\<lambda>x y. [x, y]) before after)"

definition encode_vision_context ::
  "('img list \<Rightarrow> 'img list \<Rightarrow> 'img list \<times> 'img list) \<Rightarrow> ('img list \<Rightarrow> 'e list list) \<Rightarrow>
   ('e list list \<Rightarrow> 'e list list) list \<Rightarrow> 'e list \<Rightarrow> real \<Rightarrow>
   (nat \<Rightarrow> nat \<Rightarrow> real) \<Rightarrow> 'img list \<Rightarrow> 'img list \<Rightarrow> bool \<Rightarrow> error + 'e list list list" where
  \<comment> \<open>\<^verbatim>\<open>IDM._encode_vision_context\<close>; \<open>aug_fn\<close> is the paired augmentation with its sampled
      parameters. The source samples the kept indices before it encodes the before
      image; either failure is the same error, so the result is the same.\<close>
  "encode_vision_context aug_fn patch_and_embed layers drop_token top_pct rand
       x_before x_after training =
     (let (x_b_aug, x_a_aug) = (if training then aug_fn x_before x_after
                                 else (x_before, x_after));
          before_patch = patch_and_embed x_b_aug;
          after_patch = patch_and_embed x_a_aug;
          B = length x_before;
          P = dim1 after_patch;
          depth = length layers
      in (case run_transformer layers before_patch of
            Inl e \<Rightarrow> Inl e
          | Inr before_enc \<Rightarrow>
              (let before_ctx = map (to_patch_major P depth) before_enc
               in (case (if training
                         then (case after_branch_training layers drop_token top_pct rand
                                       after_patch of
                                 Inl e \<Rightarrow> Inl e
                               | Inr ab \<Rightarrow> Inr (ab_ctx ab))
                         else (case run_transformer layers after_patch of
                                 Inl e \<Rightarrow> Inl e
                               | Inr after_enc \<Rightarrow> Inr (map (to_patch_major P depth) after_enc)))
                   of
                     Inl e \<Rightarrow> Inl e
                   | Inr after_ctx \<Rightarrow>
                       Inr (map (\<lambda>b. map (\<lambda>p. interleave (before_ctx ! b ! p) (after_ctx ! b ! p))
                                        [0..<P])
                                [0..<B])))))"


subsection \<open>Causal masks and the autoregressive decoder\<close>

datatype mval = NegInf | Fin real

definition triu :: "nat \<Rightarrow> 'a \<Rightarrow> 'a list list \<Rightarrow> 'a list list" where
  \<comment> \<open>\<^verbatim>\<open>torch.triu(m, diagonal)\<close>: entries below the chosen diagonal become the zero \<open>z\<close>.\<close>
  "triu diagonal z m =
     map (\<lambda>i. map (\<lambda>j. if i + diagonal \<le> j then m ! i ! j else z) [0..<length (m ! i)])
         [0..<length m]"

definition make_causal_mask :: "nat \<Rightarrow> mval list list" where
  \<comment> \<open>\<^verbatim>\<open>IDM._make_causal_mask\<close>: a matrix full of \<open>-inf\<close>, upper triangle kept.\<close>
  "make_causal_mask n = triu 1 (Fin 0) (replicate n (replicate n NegInf))"

definition generate_causal_mask :: "nat \<Rightarrow> bool list list" where
  \<comment> \<open>\<^verbatim>\<open>torch.triu(torch.ones(L, L), diagonal=1).bool()\<close>.\<close>
  "generate_causal_mask L =
     map (map (\<lambda>x. x \<noteq> 0)) (triu 1 0 (replicate L (replicate L (1::real))))"

text \<open>
  The library's decoder stack, as far as the flow of information between positions goes.
  A layer has attention heads, each with a score and a value function, and a function
  \<open>dl_mix\<close> that builds the new embedding of a position from its old embedding, the
  outputs of the heads at that position and the memory (residual connections,
  normalisation, cross-attention to the memory and the feed-forward block all act on one
  position). Scores, values and mixing may depend on the positions, which covers dropout
  masks. An additive mask entry \<open>-inf\<close> gives the softmax weight 0.
\<close>

definition mask_weight :: "mval \<Rightarrow> real \<Rightarrow> real" where
  "mask_weight m s = (case m of NegInf \<Rightarrow> 0 | Fin b \<Rightarrow> exp (s + b))"

definition attend ::
  "(nat \<Rightarrow> nat \<Rightarrow> 'a \<Rightarrow> 'a \<Rightarrow> real) \<Rightarrow> (nat \<Rightarrow> nat \<Rightarrow> 'a \<Rightarrow> 'v::real_vector) \<Rightarrow>
   mval list list \<Rightarrow> 'a list \<Rightarrow> nat \<Rightarrow> 'v" where
  "attend score val attn_mask x i =
     (let w = (\<lambda>j. mask_weight (attn_mask ! i ! j) (score i j (x ! i) (x ! j)));
          Z = sum_list (map w [0..<length x])
      in sum_list (map (\<lambda>j. (w j / Z) *\<^sub>R val i j (x ! j)) [0..<length x]))"

record ('a, 'v, 'mem) decoder_layer =
  dl_heads :: "((nat \<Rightarrow> nat \<Rightarrow> 'a \<Rightarrow> 'a \<Rightarrow> real) \<times> (nat \<Rightarrow> nat \<Rightarrow> 'a \<Rightarrow> 'v)) list"
  dl_mix :: "nat \<Rightarrow> 'mem \<Rightarrow> 'a \<Rightarrow> 'v list \<Rightarrow> 'a"

definition decoder_layer_forward ::
  "('a, 'v::real_vector, 'mem) decoder_layer \<Rightarrow> mval list list \<Rightarrow> 'mem \<Rightarrow> 'a list \<Rightarrow> 'a list" where
  "decoder_layer_forward l tgt_mask memory x =
     map (\<lambda>i. dl_mix l i memory (x ! i)
                 (map (\<lambda>(score, val). attend score val tgt_mask x i) (dl_heads l)))
         [0..<length x]"

definition transformer_decoder ::
  "('a, 'v::real_vector, 'mem) decoder_layer list \<Rightarrow> ('a \<Rightarrow> 'a) \<Rightarrow>
   'a list \<Rightarrow> 'mem \<Rightarrow> mval list list \<Rightarrow> 'a list" where
  \<comment> \<open>\<^verbatim>\<open>self.transformer.decoder(tgt, memory, tgt_mask)\<close>: the layers in turn, then the
      final normalisation of every position.\<close>
  "transformer_decoder layers final_norm tgt memory tgt_mask =
     map final_norm (fold (\<lambda>l x. decoder_layer_forward l tgt_mask memory x) layers tgt)"

subsection \<open>IDM forward pass\<close>

fun decode_loop ::
  "(nat \<Rightarrow> error + 'mem) \<Rightarrow> ('tok list \<Rightarrow> 'mem \<Rightarrow> mval list list \<Rightarrow> 'tok list) \<Rightarrow>
   ('tok \<Rightarrow> 'act) \<Rightarrow> nat list \<Rightarrow> 'tok list \<Rightarrow> 'act list list \<Rightarrow> error + 'act list list" where
  \<comment> \<open>\<^verbatim>\<open>for step_i in range(num_tokens)\<close>. A sequence tensor \<open>[B, T, d]\<close> is the list of its
      \<open>T\<close> positions; \<open>memory_at step_i\<close> is the context the step attends to.\<close>
  "decode_loop memory_at decoder action_head [] tgt_so_far out_tokens = Inr out_tokens"
| "decode_loop memory_at decoder action_head (step_i # steps) tgt_so_far out_tokens =
     (case memory_at step_i of
        Inl e \<Rightarrow> Inl e
      | Inr memory \<Rightarrow>
          (let T = length tgt_so_far;
               causal_mask = make_causal_mask T;
               decoder_out = decoder tgt_so_far memory causal_mask;
               last_token = drop (length decoder_out - 1) decoder_out;
               action = map action_head last_token;
               new_embed = last_token
           in decode_loop memory_at decoder action_head steps (tgt_so_far @ new_embed)
                (out_tokens @ [action])))"

definition torch_cat :: "'a list list \<Rightarrow> error + 'a list" where
  \<comment> \<open>\<^verbatim>\<open>torch.cat(tensors, dim=1)\<close> along the sequence; an empty list raises.\<close>
  "torch_cat xs = (if xs = [] then Inl RuntimeError else Inr (concat xs))"

text \<open>
  \<^verbatim>\<open>IDM.forward\<close>. \<open>encode training step\<close> is \<^verbatim>\<open>_encode_vision_context\<close> with the random draws
  of its call number \<open>step\<close>; \<open>randint low high\<close> is the value \<^verbatim>\<open>torch.randint\<close> draws, which
  raises unless \<open>low < high\<close>.
\<close>

definition IDM_forward ::
  "bool \<Rightarrow> (bool \<Rightarrow> nat \<Rightarrow> 'img list \<Rightarrow> 'img list \<Rightarrow> error + 'mem) \<Rightarrow>
   ('tok list \<Rightarrow> 'mem \<Rightarrow> mval list list \<Rightarrow> 'tok list) \<Rightarrow> ('tok \<Rightarrow> 'act) \<Rightarrow>
   ('act list \<Rightarrow> 'flat) \<Rightarrow> 'tok \<Rightarrow> int \<Rightarrow> int \<Rightarrow> int \<Rightarrow> (int \<Rightarrow> int \<Rightarrow> int) \<Rightarrow>
   'img list \<Rightarrow> 'img list \<Rightarrow> error + ('act list, 'flat) action_dict" where
  "IDM_forward training encode decoder action_head flatten mask_token min_tokens max_tokens
       num_eval_tokens randint x_before x_after =
     (if \<not> training then
        (let num_tokens = num_eval_tokens
         in (case encode False 0 x_before x_after of
               Inl e \<Rightarrow> Inl e
             | Inr src \<Rightarrow>
                 (case decode_loop (\<lambda>step_i. Inr src) decoder action_head
                         [0..<nat num_tokens] [mask_token] [] of
                    Inl e \<Rightarrow> Inl e
                  | Inr out_tokens \<Rightarrow>
                      (case torch_cat out_tokens of
                         Inl e \<Rightarrow> Inl e
                       | Inr la_seq \<Rightarrow>
                           Inr \<lparr>ad_la = la_seq, ad_la_flat = Some (flatten la_seq)\<rparr>))))
      else
        (if max_tokens + 1 \<le> min_tokens then Inl RuntimeError
         else (let num_tokens = randint min_tokens (max_tokens + 1)
               in (case decode_loop (\<lambda>step_i. encode True step_i x_before x_after) decoder
                         action_head [0..<nat num_tokens] [mask_token] [] of
                     Inl e \<Rightarrow> Inl e
                   | Inr out_tokens \<Rightarrow>
                       (case torch_cat out_tokens of
                          Inl e \<Rightarrow> Inl e
                        | Inr la_seq \<Rightarrow> Inr \<lparr>ad_la = la_seq, ad_la_flat = None\<rparr>)))))"


subsection \<open>World model: forward pass and loss\<close>

text \<open>
  Here an embedding is a list of \<open>E\<close> reals, so the layerwise latent state of a batch is a
  nested list indexed by sample, layer, patch and component. The EMA encoder is given by
  its patch embedding and its layers; the action encoder and the cross-attention decoder
  are parameters.
\<close>

definition VisionEncoder_forward ::
  "('img list \<Rightarrow> 'e list list) \<Rightarrow> ('e list list \<Rightarrow> 'e list list) list \<Rightarrow> 'img list \<Rightarrow>
   error + 'e list list list" where
  "VisionEncoder_forward patch_and_embed layers x = run_transformer layers (patch_and_embed x)"

definition view_permute ::
  "nat \<Rightarrow> nat \<Rightarrow> nat \<Rightarrow> nat \<Rightarrow> real list list list \<Rightarrow> error + real list list list list" where
  \<comment> \<open>\<^verbatim>\<open>out.view(B, P, D, E).permute(0, 2, 1, 3)\<close>: the view needs \<open>B * P * D * E\<close>
      elements and reads them in row-major order.\<close>
  "view_permute B P D E out =
     (let flat = concat (concat out)
      in if length flat \<noteq> B * P * D * E then Inl RuntimeError
         else Inr (map (\<lambda>b. map (\<lambda>d. map (\<lambda>p. map (\<lambda>e. flat ! (((b * P + p) * D + d) * E + e))
                                                    [0..<E])
                                          [0..<P])
                                [0..<D])
                      [0..<B]))"

definition WorldModel_forward ::
  "('img list \<Rightarrow> real list list list) \<Rightarrow> (real list list list \<Rightarrow> real list list list) list \<Rightarrow>
   ('act \<Rightarrow> 'ma) \<Rightarrow> (real list list list \<Rightarrow> 'ma \<Rightarrow> 'mask option \<Rightarrow> real list list list) \<Rightarrow>
   'img list \<Rightarrow> 'act \<Rightarrow> 'mask option \<Rightarrow> error + real list list list list" where
  "WorldModel_forward ema_patch_embed ema_layers action_encoder decoder before_obs action
       action_mask =
     (let B = length before_obs
      in (case VisionEncoder_forward ema_patch_embed ema_layers before_obs of
            Inl e \<Rightarrow> Inl e
          | Inr state_embed \<Rightarrow>
              (let P = dim2 state_embed;
                   D = dim1 state_embed;
                   E = dim3 state_embed
               in if length state_embed \<noteq> B then Inl RuntimeError
                  else (let state = map (\<lambda>b. map (\<lambda>p. concat (map (\<lambda>d. state_embed ! b ! d ! p)
                                                                   [0..<D]))
                                                   [0..<P])
                                        [0..<B];
                            memory_action = action_encoder action;
                            out = decoder state memory_action action_mask
                        in view_permute B P D E out))))"

definition mse_loss_none ::
  "real list list list list \<Rightarrow> real list list list list \<Rightarrow> error + real list list list list" where
  \<comment> \<open>\<^verbatim>\<open>F.mse_loss(pred, target, reduction='none')\<close> for tensors of one shape; broadcasting
      of different shapes is not modelled and counts as a failure.\<close>
  "mse_loss_none pred target =
     (if map (map (map length)) pred \<noteq> map (map (map length)) target then Inl RuntimeError
      else Inr (map2 (map2 (map2 (map2 (\<lambda>x y. (x - y)\<^sup>2)))) pred target))"

definition mean :: "real list \<Rightarrow> real" where
  \<comment> \<open>The mean of the listed elements (not a number in the source when there are none).\<close>
  "mean xs = sum_list xs / real (length xs)"

definition mean_dims_023 :: "real list list list list \<Rightarrow> real list" where
  \<comment> \<open>\<^verbatim>\<open>diff.mean(dim=(0, 2, 3))\<close>: one mean per index of dimension 1.\<close>
  "mean_dims_023 diff =
     map (\<lambda>d. mean (concat (map (\<lambda>b. concat (diff ! b ! d)) [0..<length diff])))
         [0..<dim1 diff]"

definition WorldModel_label ::
  "('img list \<Rightarrow> real list list list) \<Rightarrow> (real list list list \<Rightarrow> real list list list) list \<Rightarrow>
   ('act \<Rightarrow> 'ma) \<Rightarrow> (real list list list \<Rightarrow> 'ma \<Rightarrow> 'mask option \<Rightarrow> real list list list) \<Rightarrow>
   ('img, 'act, 'flat, 'mask) tensordict \<Rightarrow> error + real list" where
  "WorldModel_label ema_patch_embed ema_layers action_encoder decoder batch =
     (case la batch of
        None \<Rightarrow> Inl KeyError
      | Some la_seq \<Rightarrow>
          (case select_time (obs batch) (- 2) of
             Inl e \<Rightarrow> Inl e
           | Inr before_obs \<Rightarrow>
               (case select_time (obs batch) (- 1) of
                  Inl e \<Rightarrow> Inl e
                | Inr target_obs \<Rightarrow>
                    (case WorldModel_forward ema_patch_embed ema_layers action_encoder decoder
                            before_obs la_seq (la_mask batch) of
                       Inl e \<Rightarrow> Inl e
                     | Inr pred \<Rightarrow>
                         (case VisionEncoder_forward ema_patch_embed ema_layers target_obs of
                            Inl e \<Rightarrow> Inl e
                          | Inr target_embed \<Rightarrow>
                              (case mse_loss_none pred target_embed of
                                 Inl e \<Rightarrow> Inl e
                               | Inr diff \<Rightarrow> Inr (mean_dims_023 diff)))))))"

definition shape3 :: "nat \<Rightarrow> nat \<Rightarrow> nat \<Rightarrow> 'a list list list \<Rightarrow> bool" where
  \<comment> \<open>A batch tensor of shape \<open>[B, P, E]\<close>.\<close>
  "shape3 B P E t =
     (length t = B \<and> (\<forall>s\<in>set t. length s = P \<and> (\<forall>v\<in>set s. length v = E)))"


definition shape4 :: "nat \<Rightarrow> nat \<Rightarrow> nat \<Rightarrow> nat \<Rightarrow> 'a list list list list \<Rightarrow> bool" where
  \<comment> \<open>A layerwise latent state of shape \<open>[B, D, P, E]\<close>.\<close>
  "shape4 B D P E t = (length t = B \<and> (\<forall>r\<in>set t. shape3 D P E r))"


section \<open>Theorems\<close>

lemma select_time_singleton:
  "select_time [s] k = (case py_index s k of Inl e \<Rightarrow> Inl e | Inr x \<Rightarrow> Inr [x])"
  by (simp split: sum.splits)

text \<open>
  For every batch and every inference function: \<^verbatim>\<open>IDM.label\<close> passes the frame at offset
  \<open>-2\<close> as the first argument, the chunked path passes the frame at offset \<open>-1\<close> first.
\<close>

lemma IDM_label_argument_order:
  "select_time (obs batch) (- 2) = Inr x2 \<Longrightarrow> select_time (obs batch) (- 1) = Inr x1 \<Longrightarrow>
   IDM_label fwd batch =
     (case fwd x2 x1 of
        Inl e \<Rightarrow> Inl e
      | Inr action_dict \<Rightarrow>
          Inr (batch\<lparr>la := Some (ad_la action_dict),
                 la_flat := (case ad_la_flat action_dict of
                               None \<Rightarrow> la_flat batch
                             | Some v \<Rightarrow> Some v)\<rparr>))"
  by (simp add: IDM_label_def)

lemma label_chunk_argument_order:
  "select_time data_batch (- 2) = Inr x2 \<Longrightarrow> select_time data_batch (- 1) = Inr x1 \<Longrightarrow>
   label_chunk normalize_obs fwd data_batch = fwd (normalize_obs x1) (normalize_obs x2)"
  by (simp add: label_chunk_def)

text \<open>
  C1 (the chunked path departs from the claim). On a batch of one sample whose observation
  sequence is \<open>[0, 1]\<close> (offset \<open>-2\<close> holds frame 0, offset \<open>-1\<close> holds frame 1), with an
  inference function that records its two arguments, \<^verbatim>\<open>IDM.label\<close> calls inference with
  (frame 0, frame 1), the before image first, while \<^verbatim>\<open>IDM.label_chunked\<close> calls it with
  (frame 1, frame 0): the frame at offset \<open>-1\<close> is passed as the before image.
\<close>

theorem C1_label_chunked_swaps_frames:
  "IDM_label (\<lambda>b a. Inr \<lparr>ad_la = zip b a, ad_la_flat = None\<rparr>)
       \<lparr>obs = [[0::nat, 1]], la = None, la_flat = None, la_mask = None\<rparr>
     = Inr \<lparr>obs = [[0, 1]], la = Some [(0, 1)], la_flat = None, la_mask = None\<rparr>
   \<and> label_chunked (\<lambda>x. x) (\<lambda>b a. Inr (zip b a)) 128
       \<lparr>obs = [[0::nat, 1]], la = None, la_flat = None, la_mask = None\<rparr>
     = Inr \<lparr>obs = [[0, 1]], la = Some [(1, 0)], la_flat = None, la_mask = None\<rparr>"
  by (simp add: IDM_label_def label_chunked_def label_chunk_def split_chunks.simps
      py_index_def)

subsection \<open>Construction-time checks\<close>









subsection \<open>Learning-rate schedule\<close>

lemma warmup_steps_floor:
  assumes "0 \<le> n"
  shows "warmup_steps n = \<lfloor>0.15 * real_of_int n\<rfloor>"
proof -
  have "0.15 * real_of_int n = real_of_int (15 * n) / real_of_int 100" by simp
  then have "\<lfloor>0.15 * real_of_int n\<rfloor> = (15 * n) div 100"
    by (simp only: floor_divide_of_int_eq)
  with assms show ?thesis by (simp add: warmup_steps_def)
qed

lemma warmup_steps_bounds: "7 \<le> n \<Longrightarrow> 0 < warmup_steps n \<and> warmup_steps n < n"
  by (simp add: warmup_steps_def) linarith

lemma scheduled_lr_warmup:
  assumes "0 < warmup_steps n" and "step < warmup_steps n"
  shows "scheduled_lr n step =
     Inr (INITIAL_LR + (PEAK_LR - INITIAL_LR)
            * (real_of_int step / real_of_int (warmup_steps n)))"
  using assms by (simp add: scheduled_lr_def lr_lambda_def INITIAL_LR_def field_simps)

lemma scheduled_lr_decay:
  assumes "warmup_steps n < n" and "warmup_steps n \<le> step"
  shows "scheduled_lr n step =
     Inr (FINAL_LR + (PEAK_LR - FINAL_LR) *
        (1 + cos (pi * (real_of_int (step - warmup_steps n)
                          / real_of_int (n - warmup_steps n)))) / 2)"
  using assms
  by (simp add: scheduled_lr_def lr_lambda_def INITIAL_LR_def Let_def field_simps)

text \<open>
  C3, counterexample. With \<^verbatim>\<open>total_steps = 6\<close> the warmup has \<open>int(0.9) = 0\<close> steps, step 0
  already takes the cosine branch, and the rate at step 0 is the peak rate, not the
  initial rate.
\<close>

theorem C3_step0_counterexample:
  "warmup_steps 6 = 0 \<and> scheduled_lr 6 0 = Inr PEAK_LR \<and> scheduled_lr 6 0 \<noteq> Inr INITIAL_LR"
  by (simp add: scheduled_lr_def lr_lambda_def warmup_steps_def INITIAL_LR_def PEAK_LR_def
      FINAL_LR_def)

text \<open>
  C3, as amended. When \<^verbatim>\<open>total_steps\<close> is at least 7 (so that the warmup
  \<open>floor(0.15 * total_steps)\<close> has at least one step), the rate is a function of the step
  index alone: below the warmup boundary it is the linear interpolation
  \<open>INITIAL + (PEAK - INITIAL) * step / warmup\<close>; from the boundary on it is the cosine
  decay \<open>FINAL + (PEAK - FINAL) * (1 + cos (pi * progress)) / 2\<close> with
  \<open>progress = (step - warmup) / (total_steps - warmup)\<close>; the rate is the initial rate
  at step 0, the peak rate at the warmup boundary and the final rate at \<^verbatim>\<open>total_steps\<close>.
\<close>

theorem C3_lr_schedule:
  assumes "7 \<le> n"
  shows "warmup_steps n = \<lfloor>0.15 * real_of_int n\<rfloor> \<and>
    (\<forall>step. step < warmup_steps n \<longrightarrow>
       scheduled_lr n step =
         Inr (INITIAL_LR + (PEAK_LR - INITIAL_LR)
                * (real_of_int step / real_of_int (warmup_steps n)))) \<and>
    (\<forall>step. warmup_steps n \<le> step \<longrightarrow>
       scheduled_lr n step =
         Inr (FINAL_LR + (PEAK_LR - FINAL_LR) *
           (1 + cos (pi * (real_of_int (step - warmup_steps n)
                             / real_of_int (n - warmup_steps n)))) / 2)) \<and>
    scheduled_lr n 0 = Inr INITIAL_LR \<and>
    scheduled_lr n (warmup_steps n) = Inr PEAK_LR \<and>
    scheduled_lr n n = Inr FINAL_LR"
proof -
  from assms have w: "0 < warmup_steps n" "warmup_steps n < n"
    using warmup_steps_bounds by auto
  have fl: "warmup_steps n = \<lfloor>0.15 * real_of_int n\<rfloor>"
    using assms by (intro warmup_steps_floor) simp
  have s0: "scheduled_lr n 0 = Inr INITIAL_LR"
    using scheduled_lr_warmup [OF w(1) w(1)] by simp
  have sw: "scheduled_lr n (warmup_steps n) = Inr PEAK_LR"
    using scheduled_lr_decay [OF w(2), of "warmup_steps n"] by (simp add: field_simps)
  have nz: "real_of_int (n - warmup_steps n) \<noteq> 0" using w(2) by simp
  have "scheduled_lr n n =
     Inr (FINAL_LR + (PEAK_LR - FINAL_LR) *
        (1 + cos (pi * (real_of_int (n - warmup_steps n)
                          / real_of_int (n - warmup_steps n)))) / 2)"
    using scheduled_lr_decay [OF w(2), of n] w(2) by simp
  also have "real_of_int (n - warmup_steps n) / real_of_int (n - warmup_steps n) = 1"
    using nz by simp
  finally have sn: "scheduled_lr n n = Inr FINAL_LR" by simp
  show ?thesis
    using fl s0 sw sn scheduled_lr_warmup [OF w(1)] scheduled_lr_decay [OF w(2)]
    by blast
qed

theorem C3_lr_schedule_witness:
  "warmup_steps 100 = 15 \<and>
   scheduled_lr 100 0 = Inr INITIAL_LR \<and>
   scheduled_lr 100 15 = Inr PEAK_LR \<and>
   scheduled_lr 100 100 = Inr FINAL_LR \<and>
   scheduled_lr 100 3 = Inr (INITIAL_LR + (PEAK_LR - INITIAL_LR) * (3 / 15))"
proof -
  have h: "(7::int) \<le> 100" by simp
  have w: "warmup_steps 100 = 15" by (simp add: warmup_steps_def)
  show ?thesis using C3_lr_schedule [OF h] w by simp
qed

subsection \<open>Heap updates\<close>

lemma length_foreach_param [simp]: "length (foreach_param f ps h) = length h"
  unfolding foreach_param_def by (induction ps arbitrary: h) auto

lemma foreach_param_pres:
  assumes "\<And>p x. P x \<Longrightarrow> P (f p x)" and "P (h ! a)"
  shows "P (foreach_param f ps h ! a)"
  using assms(2) unfolding foreach_param_def
proof (induction ps arbitrary: h)
  case Nil
  then show ?case by simp
next
  case (Cons p ps)
  have "P (h[p := f p (h ! p)] ! a)"
  proof (cases "p = a \<and> a < length h")
    case True
    then show ?thesis using Cons.prems assms(1) by simp
  next
    case False
    then have "h[p := f p (h ! p)] ! a = h ! a"
      by (cases "p = a") (simp_all add: list_update_beyond)
    then show ?thesis using Cons.prems by simp
  qed
  then have "P (fold (\<lambda>p h. h[p := f p (h ! p)]) ps (h[p := f p (h ! p)]) ! a)"
    by (rule Cons.IH)
  then show ?case by simp
qed

lemma foreach_param_estab:
  assumes "\<And>p x. P (f p x)" and "a \<in> set ps" and "a < length h"
  shows "P (foreach_param f ps h ! a)"
  using assms(2,3) unfolding foreach_param_def
proof (induction ps arbitrary: h)
  case Nil
  then show ?case by simp
next
  case (Cons p ps)
  let ?h = "h[p := f p (h ! p)]"
  show ?case
  proof (cases "a \<in> set ps")
    case True
    have "a < length ?h" using Cons.prems by simp
    with True have "P (fold (\<lambda>p h. h[p := f p (h ! p)]) ps ?h ! a)"
      by (rule Cons.IH)
    then show ?thesis by simp
  next
    case False
    with Cons.prems have pa: "p = a" by simp
    have "?h ! a = f a (h ! a)" using pa Cons.prems by simp
    then have "P (?h ! a)" using assms(1) by simp
    then have "P (foreach_param f ps ?h ! a)"
      by (rule foreach_param_pres [where P = P, rotated]) (rule assms(1))
    then show ?thesis by (simp add: foreach_param_def)
  qed
qed

lemma foreach_param_fix:
  assumes "\<And>p. f p (h ! a) = h ! a"
  shows "foreach_param f ps h ! a = h ! a"
  by (rule foreach_param_pres [where P = "\<lambda>x. x = h ! a"]) (simp_all add: assms)

lemma zero_grad_data [simp]: "data (zero_grad ps h ! a) = data (h ! a)"
  unfolding zero_grad_def
  by (rule foreach_param_pres [where P = "\<lambda>x. data x = data (h ! a)"]) simp_all

lemma zero_grad_requires_grad [simp]:
  "requires_grad (zero_grad ps h ! a) = requires_grad (h ! a)"
  unfolding zero_grad_def
  by (rule foreach_param_pres [where P = "\<lambda>x. requires_grad x = requires_grad (h ! a)"])
     simp_all

lemma zero_grad_None: "grad (h ! a) = None \<Longrightarrow> zero_grad ps h ! a = h ! a"
  unfolding zero_grad_def by (rule foreach_param_fix) simp

lemma length_zero_grad [simp]: "length (zero_grad ps h) = length h"
  by (simp add: zero_grad_def)

lemma length_backward [simp]: "length (backward g h) = length h"
  by (simp add: backward_def)

lemma backward_frozen:
  "a < length h \<Longrightarrow> \<not> requires_grad (h ! a) \<Longrightarrow> backward g h ! a = h ! a"
  by (simp add: backward_def)

lemma optimizer_step_no_grad:
  "grad (h ! a) = None \<Longrightarrow> optimizer_step upd ps h ! a = h ! a"
  unfolding optimizer_step_def by (rule foreach_param_fix) simp

lemma length_optimizer_step [simp]: "length (optimizer_step upd ps h) = length h"
  by (simp add: optimizer_step_def)


lemma length_ema_fold [simp]: "length (fold (ema_assign m) ps h) = length h"
  by (induction ps arbitrary: h) (auto simp: ema_assign_def)

lemma ema_fold_other:
  "a \<notin> fst ` set ps \<Longrightarrow> fold (ema_assign m) ps h ! a = h ! a"
  by (induction ps arbitrary: h) (auto simp: ema_assign_def)

lemma ema_fold_at:
  assumes "distinct (map fst ps)" and "fst ` set ps \<inter> snd ` set ps = {}"
    and "(e, p) \<in> set ps" and "e < length h"
  shows "fold (ema_assign m) ps h ! e =
         (h ! e)\<lparr>data := m *\<^sub>R data (h ! e) + (1 - m) *\<^sub>R data (h ! p)\<rparr>"
  using assms
proof (induction ps arbitrary: h)
  case Nil
  then show ?case by simp
next
  case (Cons q ps)
  obtain e' p' where q: "q = (e', p')" by (cases q)
  let ?h = "ema_assign m q h"
  have len: "e < length ?h" using Cons.prems(4) by (simp add: ema_assign_def q)
  show ?case
  proof (cases "(e, p) = q")
    case True
    then have qe: "q = (e, p)" by simp
    have "e \<notin> fst ` set ps" using Cons.prems(1) qe by force
    then have "fold (ema_assign m) ps ?h ! e = ?h ! e" by (rule ema_fold_other)
    moreover have "?h ! e =
        (h ! e)\<lparr>data := m *\<^sub>R data (h ! e) + (1 - m) *\<^sub>R data (h ! p)\<rparr>"
      using Cons.prems(4) by (simp add: ema_assign_def qe)
    ultimately show ?thesis by simp
  next
    case False
    then have mem: "(e, p) \<in> set ps" using Cons.prems(3) by simp
    have d: "distinct (map fst ps)" using Cons.prems(1) by simp
    have dj: "fst ` set ps \<inter> snd ` set ps = {}" using Cons.prems(2) by auto
    have ne: "e \<noteq> e'" using Cons.prems(1) mem q by force
    have np: "p \<noteq> e'"
    proof
      assume "p = e'"
      then have "e' \<in> snd ` set (q # ps)" using mem by force
      moreover have "e' \<in> fst ` set (q # ps)" using q by simp
      ultimately show False using Cons.prems(2) by blast
    qed
    have "fold (ema_assign m) ps ?h ! e =
          (?h ! e)\<lparr>data := m *\<^sub>R data (?h ! e) + (1 - m) *\<^sub>R data (?h ! p)\<rparr>"
      using d dj mem len by (rule Cons.IH)
    moreover have "?h ! e = h ! e" using ne by (simp add: ema_assign_def q)
    moreover have "?h ! p = h ! p" using np by (simp add: ema_assign_def q)
    ultimately show ?thesis by simp
  qed
qed

lemma update_ema_at:
  assumes "wm_wf wm h" and "i < length (wm_ema_encoder wm)"
  shows "update_ema m wm h ! (wm_ema_encoder wm ! i) =
         (h ! (wm_ema_encoder wm ! i))
           \<lparr>data := m *\<^sub>R data (h ! (wm_ema_encoder wm ! i))
                    + (1 - m) *\<^sub>R data (h ! (wm_encoder wm ! i))\<rparr>"
proof -
  let ?ema = "wm_ema_encoder wm" and ?enc = "wm_encoder wm"
  from assms(1) have d: "distinct ?ema" and dj: "set ?ema \<inter> set ?enc = {}"
    and len: "length ?ema = length ?enc" and bd: "\<forall>a\<in>set ?ema. a < length h"
    by (auto simp: wm_wf_def)
  have 1: "distinct (map fst (zip ?ema ?enc))" using d len by simp
  have "fst ` set (zip ?ema ?enc) \<subseteq> set ?ema" and "snd ` set (zip ?ema ?enc) \<subseteq> set ?enc"
    by (auto dest: set_zip_leftD set_zip_rightD)
  then have 2: "fst ` set (zip ?ema ?enc) \<inter> snd ` set (zip ?ema ?enc) = {}"
    using dj by blast
  have 3: "(?ema ! i, ?enc ! i) \<in> set (zip ?ema ?enc)"
    using assms(2) len by (auto simp: set_zip)
  have 4: "?ema ! i < length h" using bd assms(2) by simp
  show ?thesis unfolding update_ema_def using 1 2 3 4 by (rule ema_fold_at)
qed

lemma update_ema_other:
  assumes "a \<notin> set (wm_ema_encoder wm)"
  shows "update_ema m wm h ! a = h ! a"
proof -
  have "a \<notin> fst ` set (zip (wm_ema_encoder wm) (wm_encoder wm))"
    using assms by (auto dest: set_zip_leftD)
  then show ?thesis unfolding update_ema_def by (rule ema_fold_other)
qed

lemma length_update_ema [simp]: "length (update_ema m wm h) = length h"
  by (simp add: update_ema_def)

subsection \<open>EMA update and construction\<close>

text \<open>
  C4. For every momentum \<open>m\<close> and every world model whose EMA parameters are objects of
  their own, paired one to one with the encoder parameters: after \<^verbatim>\<open>update_ema(m)\<close> the
  i-th EMA parameter holds \<open>m * old_shadow + (1 - m) * online\<close> with its other fields
  unchanged, and every other object on the heap (the online encoder parameters among
  them) is left as it was.
\<close>

theorem C4_update_ema_convex_combination:
  assumes "wm_wf wm h"
  shows "(\<forall>i<length (wm_ema_encoder wm).
            update_ema m wm h ! (wm_ema_encoder wm ! i) =
              (h ! (wm_ema_encoder wm ! i))
                \<lparr>data := m *\<^sub>R data (h ! (wm_ema_encoder wm ! i))
                         + (1 - m) *\<^sub>R data (h ! (wm_encoder wm ! i))\<rparr>) \<and>
         (\<forall>a. a \<notin> set (wm_ema_encoder wm) \<longrightarrow> update_ema m wm h ! a = h ! a) \<and>
         length (update_ema m wm h) = length h"
  using assms update_ema_at update_ema_other by (simp add: update_ema_at update_ema_other)

theorem C4_update_ema_witness:
  "wm_wf \<lparr>wm_encoder = [0], wm_ema_encoder = [1], wm_action_encoder = [], wm_decoder = []\<rparr>
     [\<lparr>data = 2::real, requires_grad = True, grad = None\<rparr>,
      \<lparr>data = 4, requires_grad = False, grad = None\<rparr>] \<and>
   update_ema (1 / 2)
     \<lparr>wm_encoder = [0], wm_ema_encoder = [1], wm_action_encoder = [], wm_decoder = []\<rparr>
     [\<lparr>data = 2::real, requires_grad = True, grad = None\<rparr>,
      \<lparr>data = 4, requires_grad = False, grad = None\<rparr>] ! 1
   = \<lparr>data = 3, requires_grad = False, grad = None\<rparr> \<and>
   update_ema (1 / 2)
     \<lparr>wm_encoder = [0], wm_ema_encoder = [1], wm_action_encoder = [], wm_decoder = []\<rparr>
     [\<lparr>data = 2::real, requires_grad = True, grad = None\<rparr>,
      \<lparr>data = 4, requires_grad = False, grad = None\<rparr>] ! 0
   = \<lparr>data = 2, requires_grad = True, grad = None\<rparr>"
proof -
  let ?wm = "\<lparr>wm_encoder = [0], wm_ema_encoder = [1::nat], wm_action_encoder = [],
              wm_decoder = []\<rparr>"
  let ?h = "[\<lparr>data = 2::real, requires_grad = True, grad = None\<rparr>,
             \<lparr>data = 4, requires_grad = False, grad = None\<rparr>]"
  have wf: "wm_wf ?wm ?h" by (simp add: wm_wf_def)
  have "update_ema (1 / 2) ?wm ?h ! 1 = \<lparr>data = 3, requires_grad = False, grad = None\<rparr>"
    and "update_ema (1 / 2) ?wm ?h ! 0 = ?h ! 0"
    using C4_update_ema_convex_combination [OF wf, of "1 / 2"] by simp_all
  with wf show ?thesis by simp
qed

lemma length_set_requires_grad [simp]: "length (set_requires_grad b ps h) = length h"
  by (simp add: set_requires_grad_def)

lemma set_requires_grad_False:
  "a \<in> set ps \<Longrightarrow> a < length h \<Longrightarrow> \<not> requires_grad (set_requires_grad False ps h ! a)"
  unfolding set_requires_grad_def
  by (rule foreach_param_estab [where P = "\<lambda>x. \<not> requires_grad x"]) simp_all

lemma set_requires_grad_False_pres:
  "\<not> requires_grad (h ! a) \<Longrightarrow> \<not> requires_grad (set_requires_grad False ps h ! a)"
  unfolding set_requires_grad_def
  by (rule foreach_param_pres [where P = "\<lambda>x. \<not> requires_grad x"]) simp_all

lemma set_requires_grad_grad [simp]:
  "grad (set_requires_grad b ps h ! a) = grad (h ! a)"
  unfolding set_requires_grad_def
  by (rule foreach_param_pres [where P = "\<lambda>x. grad x = grad (h ! a)"]) simp_all

lemma set_requires_grad_data [simp]:
  "data (set_requires_grad b ps h ! a) = data (h ! a)"
  unfolding set_requires_grad_def
  by (rule foreach_param_pres [where P = "\<lambda>x. data x = data (h ! a)"]) simp_all

lemma new_params_simps [simp]:
  "fst (new_params vals h) = [length h..<length h + length vals]"
  "length (snd (new_params vals h)) = length h + length vals"
  "a < length h \<Longrightarrow> snd (new_params vals h) ! a = h ! a"
  by (simp_all add: new_params_def nth_append)

lemma deepcopy_simps [simp]:
  "fst (deepcopy ps h) = [length h..<length h + length ps]"
  "length (snd (deepcopy ps h)) = length h + length ps"
  "a < length h \<Longrightarrow> snd (deepcopy ps h) ! a = h ! a"
  "length h \<le> a \<Longrightarrow> a < length h + length ps \<Longrightarrow> grad (snd (deepcopy ps h) ! a) = None"
  by (simp_all add: deepcopy_def nth_append)

lemma WorldModel_init_wf:
  assumes "WorldModel_init iv h0 = (wm, h)"
  shows "wm_wf wm h \<and> ema_frozen wm h \<and> (\<forall>a\<in>set (wm_encoder wm). a < length h)"
proof -
  let ?n = "length (encoder_init iv)"
  let ?h1 = "snd (new_params (encoder_init iv) h0)"
  let ?enc = "[length h0..<length h0 + ?n]"
  let ?h2 = "snd (deepcopy ?enc ?h1)"
  let ?ema = "[length h0 + ?n..<length h0 + ?n + ?n]"
  let ?h3 = "set_requires_grad False ?ema ?h2"
  let ?h4 = "snd (new_params (action_encoder_init iv) ?h3)"
  let ?h5 = "snd (new_params (decoder_init iv) ?h4)"
  have wm: "wm_encoder wm = ?enc" "wm_ema_encoder wm = ?ema" and h: "h = ?h5"
    using assms by (auto simp: WorldModel_init_def Let_def case_prod_beta)
  have wf: "wm_wf wm h" unfolding wm_wf_def wm h by auto
  have fr: "ema_frozen wm h"
    unfolding ema_frozen_def wm
  proof
    fix a assume a: "a \<in> set ?ema"
    then have lt: "a < length ?h2" by simp
    have r: "\<not> requires_grad (?h3 ! a)" using a lt by (rule set_requires_grad_False)
    have g: "grad (?h3 ! a) = None" using a by simp
    have "h ! a = ?h3 ! a" unfolding h using lt by simp
    with r g show "\<not> requires_grad (h ! a) \<and> grad (h ! a) = None" by simp
  qed
  have "\<forall>a\<in>set (wm_encoder wm). a < length h" unfolding wm h by auto
  with wf fr show ?thesis by simp
qed

subsection \<open>Training step invariants\<close>

lemma IDM_init_old:
  assumes "IDM_init enc ema iv h1 = (idm, h2)" and "a < length h1"
  shows "h2 ! a = set_requires_grad False ema h1 ! a"
  using assms by (auto simp: IDM_init_def Let_def case_prod_beta)

lemma IDM_init_fields:
  assumes "IDM_init enc ema iv h1 = (idm, h2)"
  shows "length h1 \<le> length h2"
    and "idm_encoder idm = enc" and "idm_ema_encoder idm = ema"
  using assms by (auto simp: IDM_init_def Let_def case_prod_beta)

lemma create_dynamics_models_inv:
  assumes "create_dynamics_models iv h0 = (idm, wm, h)"
  shows "wm_wf wm h \<and> ema_frozen wm h \<and>
         idm_encoder idm = wm_encoder wm \<and> idm_ema_encoder idm = wm_ema_encoder wm"
proof -
  obtain wm' h1 where W: "WorldModel_init iv h0 = (wm', h1)"
    by (cases "WorldModel_init iv h0")
  obtain idm' h2 where I: "IDM_init (wm_encoder wm') (wm_ema_encoder wm') iv h1 = (idm', h2)"
    by (cases "IDM_init (wm_encoder wm') (wm_ema_encoder wm') iv h1")
  from assms W I have eq: "idm = idm'" "wm = wm'" "h = h2"
    by (simp_all add: create_dynamics_models_def Let_def)
  from WorldModel_init_wf [OF W] have wf1: "wm_wf wm h1" and fr1: "ema_frozen wm h1"
    unfolding eq by simp_all
  have len: "length h1 \<le> length h" using IDM_init_fields(1) [OF I] eq by simp
  have bd: "\<forall>a\<in>set (wm_ema_encoder wm). a < length h1" using wf1 by (simp add: wm_wf_def)
  have wf: "wm_wf wm h" using wf1 len by (auto simp: wm_wf_def)
  have fr: "ema_frozen wm h"
    unfolding ema_frozen_def
  proof
    fix a assume a: "a \<in> set (wm_ema_encoder wm)"
    then have lt: "a < length h1" using bd by simp
    have "h ! a = set_requires_grad False (wm_ema_encoder wm) h1 ! a"
      using IDM_init_old [OF I lt] eq by simp
    moreover have "\<not> requires_grad (h1 ! a)" "grad (h1 ! a) = None"
      using fr1 a by (simp_all add: ema_frozen_def)
    ultimately show "\<not> requires_grad (h ! a) \<and> grad (h ! a) = None"
      by (simp add: set_requires_grad_False_pres)
  qed
  show ?thesis using wf fr IDM_init_fields(2,3) [OF I] eq by simp
qed

lemma ema_untouched_by_gradient_phase:
  assumes "wm_wf wm h" and "ema_frozen wm h" and "a \<in> set (wm_ema_encoder wm)"
  shows "after_backward g optimizer h ! a = h ! a"
    and "after_optimizer_step g upd optimizer h ! a = h ! a"
proof -
  from assms have lt: "a < length h" and nr: "\<not> requires_grad (h ! a)"
    and ng: "grad (h ! a) = None"
    by (auto simp: wm_wf_def ema_frozen_def)
  have z: "zero_grad optimizer h ! a = h ! a" using ng by (rule zero_grad_None)
  have "backward g (zero_grad optimizer h) ! a = zero_grad optimizer h ! a"
    by (rule backward_frozen) (simp_all add: lt z nr)
  then show b: "after_backward g optimizer h ! a = h ! a"
    by (simp add: after_backward_def z)
  have "optimizer_step upd optimizer (after_backward g optimizer h) ! a
        = after_backward g optimizer h ! a"
    by (rule optimizer_step_no_grad) (simp add: b ng)
  then show "after_optimizer_step g upd optimizer h ! a = h ! a"
    by (simp add: after_optimizer_step_def b)
qed

lemma length_after_optimizer_step [simp]:
  "length (after_optimizer_step g upd optimizer h) = length h"
  by (simp add: after_optimizer_step_def after_backward_def)

lemma train_step_ema:
  assumes "wm_wf wm (heap st)" and "ema_frozen wm (heap st)"
    and "i < length (wm_ema_encoder wm)"
  shows "heap (train_step g upd idm wm optimizer k st) ! (wm_ema_encoder wm ! i) =
     (heap st ! (wm_ema_encoder wm ! i))
       \<lparr>data := start_momentum *\<^sub>R data (heap st ! (wm_ema_encoder wm ! i))
                + (1 - start_momentum) *\<^sub>R
                  data (after_optimizer_step (g k) (upd k) optimizer (heap st)
                          ! (wm_encoder wm ! i))\<rparr>"
proof -
  let ?a = "wm_ema_encoder wm ! i"
  let ?h3 = "after_optimizer_step (g k) (upd k) optimizer (heap st)"
  let ?h4 = "update_ema start_momentum wm ?h3"
  let ?h5 = "zero_grad (WorldModel_parameters wm) ?h4"
  let ?h6 = "zero_grad (IDM_parameters idm) ?h5"
  have a: "?a \<in> set (wm_ema_encoder wm)" using assms(3) by simp
  have same: "?h3 ! ?a = heap st ! ?a"
    using assms(1,2) a by (rule ema_untouched_by_gradient_phase(2))
  have ng: "grad (heap st ! ?a) = None" using assms(2) a by (simp add: ema_frozen_def)
  have wf3: "wm_wf wm ?h3" using assms(1) by (simp add: wm_wf_def)
  have h4: "?h4 ! ?a = (heap st ! ?a)
       \<lparr>data := start_momentum *\<^sub>R data (heap st ! ?a)
                + (1 - start_momentum) *\<^sub>R data (?h3 ! (wm_encoder wm ! i))\<rparr>"
    using update_ema_at [OF wf3 assms(3), of start_momentum] same by simp
  have h5: "?h5 ! ?a = ?h4 ! ?a" by (rule zero_grad_None) (simp add: h4 ng)
  have h6: "?h6 ! ?a = ?h5 ! ?a" by (rule zero_grad_None) (simp add: h5 h4 ng)
  have "heap (train_step g upd idm wm optimizer k st) = ?h6"
    by (simp add: train_step_def Let_def)
  then show ?thesis using h6 h5 h4 by simp
qed

lemma train_step_inv:
  assumes "wm_wf wm (heap st)" and "ema_frozen wm (heap st)"
  shows "wm_wf wm (heap (train_step g upd idm wm optimizer k st)) \<and>
         ema_frozen wm (heap (train_step g upd idm wm optimizer k st))"
proof -
  have len: "length (heap (train_step g upd idm wm optimizer k st)) = length (heap st)"
    by (simp add: train_step_def Let_def)
  have wf: "wm_wf wm (heap (train_step g upd idm wm optimizer k st))"
    using assms(1) len by (simp add: wm_wf_def)
  have "ema_frozen wm (heap (train_step g upd idm wm optimizer k st))"
    unfolding ema_frozen_def
  proof
    fix a assume a: "a \<in> set (wm_ema_encoder wm)"
    then obtain i where i: "i < length (wm_ema_encoder wm)" "a = wm_ema_encoder wm ! i"
      by (auto simp: in_set_conv_nth)
    have "\<not> requires_grad (heap st ! a)" "grad (heap st ! a) = None"
      using assms(2) a by (simp_all add: ema_frozen_def)
    then show "\<not> requires_grad (heap (train_step g upd idm wm optimizer k st) ! a) \<and>
               grad (heap (train_step g upd idm wm optimizer k st) ! a) = None"
      using train_step_ema [OF assms i(1), of g upd idm optimizer k] i(2) by simp
  qed
  with wf show ?thesis by simp
qed

lemma training_run_inv:
  assumes "wm_wf wm (heap st)" and "ema_frozen wm (heap st)"
  shows "wm_wf wm (heap (training_run g upd idm wm optimizer k st)) \<and>
         ema_frozen wm (heap (training_run g upd idm wm optimizer k st))"
proof (induction k)
  case 0
  show ?case using assms by simp
next
  case (Suc k)
  then show ?case using train_step_inv [of wm "training_run g upd idm wm optimizer k st"]
    by (simp add: scheduler_step_def)
qed

lemma concat_replicate_snoc: "concat (replicate k xs) @ xs = concat (replicate (Suc k) xs)"
  by (induction k) simp_all

lemma training_run_calls:
  "filter (\<lambda>e. e = OptimizerStep \<or> e = UpdateEma)
     (calls (training_run g upd idm wm optimizer k st)) =
   filter (\<lambda>e. e = OptimizerStep \<or> e = UpdateEma) (calls st)
     @ concat (replicate k [OptimizerStep, UpdateEma])"
proof (induction k)
  case 0
  show ?case by simp
next
  case (Suc k)
  have "filter (\<lambda>e. e = OptimizerStep \<or> e = UpdateEma)
          (calls (training_run g upd idm wm optimizer (Suc k) st)) =
        filter (\<lambda>e. e = OptimizerStep \<or> e = UpdateEma)
          (calls (training_run g upd idm wm optimizer k st)) @ [OptimizerStep, UpdateEma]"
    by (simp add: scheduler_step_def train_step_def Let_def)
  also have "\<dots> = filter (\<lambda>e. e = OptimizerStep \<or> e = UpdateEma) (calls st)
     @ (concat (replicate k [OptimizerStep, UpdateEma]) @ [OptimizerStep, UpdateEma])"
    using Suc.IH by simp
  finally show ?case by (simp only: concat_replicate_snoc)
qed

text \<open>
  C5. Let the models be those built by \<^verbatim>\<open>create_dynamics_models\<close> and let \<open>st\<close> be the state
  after any number \<open>k\<close> of iterations of the training loop, for any gradients \<open>g\<close>, any
  optimiser update rule \<open>upd\<close> and any list of optimised parameters. Then in training
  step \<open>k\<close> every EMA encoder parameter requires no gradient and holds none, is left
  unchanged by \<^verbatim>\<open>loss.backward()\<close> and by \<^verbatim>\<open>optimizer.step()\<close>, and after the step equals
  its old value with only the data replaced by the momentum interpolation with the online
  parameter as the optimiser step left it; and over the run, the optimiser steps and the
  EMA updates alternate, each optimiser step followed by exactly one EMA update.
\<close>

theorem C5_ema_changed_only_by_update_ema:
  fixes g :: "nat \<Rightarrow> nat \<Rightarrow> ('t::real_vector) option"
    and upd :: "nat \<Rightarrow> nat \<Rightarrow> 't \<Rightarrow> 't \<Rightarrow> 't" and optimizer :: "nat list" and k :: nat
  assumes "create_dynamics_models iv h0 = (idm, wm, h)"
  defines "st \<equiv> training_run g upd idm wm optimizer k \<lparr>heap = h, calls = []\<rparr>"
  shows "(\<forall>a\<in>set (wm_ema_encoder wm).
            \<not> requires_grad (heap st ! a) \<and> grad (heap st ! a) = None \<and>
            after_backward (g k) optimizer (heap st) ! a = heap st ! a \<and>
            after_optimizer_step (g k) (upd k) optimizer (heap st) ! a = heap st ! a) \<and>
         (\<forall>i<length (wm_ema_encoder wm).
            heap (train_step g upd idm wm optimizer k st) ! (wm_ema_encoder wm ! i) =
              (heap st ! (wm_ema_encoder wm ! i))
                \<lparr>data := start_momentum *\<^sub>R data (heap st ! (wm_ema_encoder wm ! i))
                         + (1 - start_momentum) *\<^sub>R
                           data (after_optimizer_step (g k) (upd k) optimizer (heap st)
                                   ! (wm_encoder wm ! i))\<rparr>) \<and>
         filter (\<lambda>e. e = OptimizerStep \<or> e = UpdateEma) (calls st) =
           concat (replicate k [OptimizerStep, UpdateEma])"
proof -
  from create_dynamics_models_inv [OF assms(1)]
  have "wm_wf wm (heap \<lparr>heap = h, calls = []\<rparr>)"
    and "ema_frozen wm (heap \<lparr>heap = h, calls = []\<rparr>)"
    by simp_all
  then have inv: "wm_wf wm (heap st)" "ema_frozen wm (heap st)"
    unfolding st_def using training_run_inv by blast+
  have 1: "\<forall>a\<in>set (wm_ema_encoder wm).
            \<not> requires_grad (heap st ! a) \<and> grad (heap st ! a) = None \<and>
            after_backward (g k) optimizer (heap st) ! a = heap st ! a \<and>
            after_optimizer_step (g k) (upd k) optimizer (heap st) ! a = heap st ! a"
  proof
    fix a assume a: "a \<in> set (wm_ema_encoder wm)"
    have "\<not> requires_grad (heap st ! a) \<and> grad (heap st ! a) = None"
      using inv(2) a by (simp add: ema_frozen_def)
    then show "\<not> requires_grad (heap st ! a) \<and> grad (heap st ! a) = None \<and>
            after_backward (g k) optimizer (heap st) ! a = heap st ! a \<and>
            after_optimizer_step (g k) (upd k) optimizer (heap st) ! a = heap st ! a"
      using ema_untouched_by_gradient_phase [OF inv a] by simp
  qed
  have 2: "\<forall>i<length (wm_ema_encoder wm).
            heap (train_step g upd idm wm optimizer k st) ! (wm_ema_encoder wm ! i) =
              (heap st ! (wm_ema_encoder wm ! i))
                \<lparr>data := start_momentum *\<^sub>R data (heap st ! (wm_ema_encoder wm ! i))
                         + (1 - start_momentum) *\<^sub>R
                           data (after_optimizer_step (g k) (upd k) optimizer (heap st)
                                   ! (wm_encoder wm ! i))\<rparr>"
    using train_step_ema [OF inv] by blast
  have 3: "filter (\<lambda>e. e = OptimizerStep \<or> e = UpdateEma) (calls st) =
           concat (replicate k [OptimizerStep, UpdateEma])"
    unfolding st_def by (simp add: training_run_calls)
  from 1 2 3 show ?thesis by blast
qed

theorem C5_ema_witness:
  "create_dynamics_models
     \<lparr>encoder_init = [2::real], action_encoder_init = [], decoder_init = [],
      transformer_init = [], mask_token_init = 0, drop_token_init = 0,
      action_head_init = []\<rparr> []
   = (\<lparr>idm_mask_token = 2, idm_drop_token = 3, idm_encoder = [0], idm_ema_encoder = [1],
        idm_transformer = [], idm_action_head = []\<rparr>,
      \<lparr>wm_encoder = [0], wm_ema_encoder = [1], wm_action_encoder = [], wm_decoder = []\<rparr>,
      [\<lparr>data = 2, requires_grad = True, grad = None\<rparr>,
       \<lparr>data = 2, requires_grad = False, grad = None\<rparr>,
       \<lparr>data = 0, requires_grad = True, grad = None\<rparr>,
       \<lparr>data = 0, requires_grad = True, grad = None\<rparr>]) \<and>
   heap (train_step (\<lambda>k a. Some 1) (\<lambda>k a x d. x - d)
      \<lparr>idm_mask_token = 2, idm_drop_token = 3, idm_encoder = [0], idm_ema_encoder = [1],
        idm_transformer = [], idm_action_head = []\<rparr>
      \<lparr>wm_encoder = [0], wm_ema_encoder = [1], wm_action_encoder = [], wm_decoder = []\<rparr>
      [0, 1, 2, 3] 0
      \<lparr>heap = [\<lparr>data = 2::real, requires_grad = True, grad = None\<rparr>,
               \<lparr>data = 2, requires_grad = False, grad = None\<rparr>,
               \<lparr>data = 0, requires_grad = True, grad = None\<rparr>,
               \<lparr>data = 0, requires_grad = True, grad = None\<rparr>], calls = []\<rparr>) ! 1
   = \<lparr>data = 199 / 100, requires_grad = False, grad = None\<rparr>"
proof -
  let ?iv = "\<lparr>encoder_init = [2::real], action_encoder_init = [], decoder_init = [],
      transformer_init = [], mask_token_init = 0, drop_token_init = 0,
      action_head_init = []\<rparr>"
  let ?idm = "\<lparr>idm_mask_token = 2, idm_drop_token = 3, idm_encoder = [0],
      idm_ema_encoder = [1], idm_transformer = [], idm_action_head = []\<rparr>"
  let ?wm = "\<lparr>wm_encoder = [0], wm_ema_encoder = [1::nat], wm_action_encoder = [],
      wm_decoder = []\<rparr>"
  let ?h = "[\<lparr>data = 2::real, requires_grad = True, grad = None\<rparr>,
       \<lparr>data = 2, requires_grad = False, grad = None\<rparr>,
       \<lparr>data = 0, requires_grad = True, grad = None\<rparr>,
       \<lparr>data = 0, requires_grad = True, grad = None\<rparr>]"
  have c: "create_dynamics_models ?iv [] = (?idm, ?wm, ?h)"
    by (simp add: create_dynamics_models_def WorldModel_init_def IDM_init_def new_params_def
        deepcopy_def set_requires_grad_def foreach_param_def Let_def)
  have d: "after_optimizer_step (\<lambda>a. Some 1) (\<lambda>a x d. x - d) [0, 1, 2, 3] ?h ! 0
           = \<lparr>data = 1, requires_grad = True, grad = Some 1\<rparr>"
    by (simp add: after_optimizer_step_def after_backward_def optimizer_step_def
        backward_def zero_grad_def foreach_param_def upt_rec)
  show ?thesis
    using C5_ema_changed_only_by_update_ema
            [OF c, of "\<lambda>k a. Some 1" "\<lambda>k a x d. x - d" "[0, 1, 2, 3]" 0] c d
    by (simp add: start_momentum_def)
qed

subsection \<open>Unique parameters\<close>

lemma count_list_distinct:
  "distinct xs \<Longrightarrow> count_list xs x = (if x \<in> set xs then 1 else 0)"
  by (induction xs) auto

lemma get_unique_params_set [simp]:
  "set (get_unique_params params1 params2) = set params1 \<union> set params2"
  by (simp add: get_unique_params_def)

lemma get_unique_params_distinct [simp]: "distinct (get_unique_params params1 params2)"
  by (simp add: get_unique_params_def)

text \<open>
  C10. For any two parameter lists, every parameter that belongs to either appears exactly
  once in the result of \<^verbatim>\<open>get_unique_params\<close> and nothing else appears in it, also when
  the two lists share parameters. For the models built by \<^verbatim>\<open>create_dynamics_models\<close>, every
  parameter of the vision encoder is a parameter of both the IDM and the world model, and
  occurs exactly once in the list handed to the optimiser.
\<close>

theorem C10_get_unique_params_once:
  "count_list (get_unique_params params1 params2) p =
     (if p \<in> set params1 \<union> set params2 then 1 else 0) \<and>
   (create_dynamics_models iv h0 = (idm, wm, h) \<longrightarrow>
      (\<forall>a\<in>set (wm_encoder wm).
         a \<in> set (IDM_parameters idm) \<and> a \<in> set (WorldModel_parameters wm) \<and>
         count_list (get_unique_params (IDM_parameters idm) (WorldModel_parameters wm)) a = 1))"
proof (intro conjI impI ballI)
  show "count_list (get_unique_params params1 params2) p =
     (if p \<in> set params1 \<union> set params2 then 1 else 0)"
    using count_list_distinct [of "get_unique_params params1 params2" p] by simp
next
  fix a
  assume c: "create_dynamics_models iv h0 = (idm, wm, h)" and a: "a \<in> set (wm_encoder wm)"
  from create_dynamics_models_inv [OF c] have "idm_encoder idm = wm_encoder wm" by simp
  with a show "a \<in> set (IDM_parameters idm)" by (simp add: IDM_parameters_def)
  from a show "a \<in> set (WorldModel_parameters wm)" by (simp add: WorldModel_parameters_def)
  then show "count_list (get_unique_params (IDM_parameters idm) (WorldModel_parameters wm)) a = 1"
    using count_list_distinct
            [of "get_unique_params (IDM_parameters idm) (WorldModel_parameters wm)" a]
    by simp
qed

theorem C10_get_unique_params_witness:
  "count_list (get_unique_params [0, 1] [1, 2]) 1 = 1 \<and>
   create_dynamics_models
     \<lparr>encoder_init = [2::real], action_encoder_init = [5], decoder_init = [],
      transformer_init = [], mask_token_init = 0, drop_token_init = 0,
      action_head_init = []\<rparr> []
   = (\<lparr>idm_mask_token = 3, idm_drop_token = 4, idm_encoder = [0], idm_ema_encoder = [1],
        idm_transformer = [], idm_action_head = []\<rparr>,
      \<lparr>wm_encoder = [0], wm_ema_encoder = [1], wm_action_encoder = [2], wm_decoder = []\<rparr>,
      [\<lparr>data = 2, requires_grad = True, grad = None\<rparr>,
       \<lparr>data = 2, requires_grad = False, grad = None\<rparr>,
       \<lparr>data = 5, requires_grad = True, grad = None\<rparr>,
       \<lparr>data = 0, requires_grad = True, grad = None\<rparr>,
       \<lparr>data = 0, requires_grad = True, grad = None\<rparr>]) \<and>
   count_list
     (get_unique_params
        (IDM_parameters \<lparr>idm_mask_token = 3, idm_drop_token = 4, idm_encoder = [0],
           idm_ema_encoder = [1], idm_transformer = [], idm_action_head = []\<rparr>)
        (WorldModel_parameters \<lparr>wm_encoder = [0], wm_ema_encoder = [1],
           wm_action_encoder = [2], wm_decoder = []\<rparr>)) 0 = 1"
proof -
  let ?iv = "\<lparr>encoder_init = [2::real], action_encoder_init = [5], decoder_init = [],
      transformer_init = [], mask_token_init = 0, drop_token_init = 0,
      action_head_init = []\<rparr>"
  let ?idm = "\<lparr>idm_mask_token = 3, idm_drop_token = 4, idm_encoder = [0],
      idm_ema_encoder = [1], idm_transformer = [], idm_action_head = []\<rparr>"
  let ?wm = "\<lparr>wm_encoder = [0], wm_ema_encoder = [1::nat], wm_action_encoder = [2],
      wm_decoder = []\<rparr>"
  let ?h = "[\<lparr>data = 2::real, requires_grad = True, grad = None\<rparr>,
       \<lparr>data = 2, requires_grad = False, grad = None\<rparr>,
       \<lparr>data = 5, requires_grad = True, grad = None\<rparr>,
       \<lparr>data = 0, requires_grad = True, grad = None\<rparr>,
       \<lparr>data = 0, requires_grad = True, grad = None\<rparr>]"
  have c: "create_dynamics_models ?iv [] = (?idm, ?wm, ?h)"
    by (simp add: create_dynamics_models_def WorldModel_init_def IDM_init_def new_params_def
        deepcopy_def set_requires_grad_def foreach_param_def Let_def)
  show ?thesis
    using C10_get_unique_params_once [of "[0, 1]" "[1, 2]" 1 ?iv "[]" ?idm ?wm ?h] c
    by simp
qed

subsection \<open>Patch retention\<close>






lemma length_fold_set_True [simp]: "length (fold (\<lambda>i m. m[i := True]) idxs m) = length m"
  by (induction idxs arbitrary: m) simp_all


lemma length_keep_mask_of [simp]: "length (keep_mask_of P idxs) = P"
  by (simp add: keep_mask_of_def)


lemma length_scatter_fold [simp]:
  "length (fold (\<lambda>(k, i) f. f[i := src ! k]) ps full) = length full"
  by (induction ps arbitrary: full) auto





lemma length_scatter_rows [simp]: "length (scatter_rows idxs src full) = length full"
  by (simp add: scatter_rows_def)


lemma length_layer_outputs [simp]: "length (layer_outputs layers x) = length layers"
  by (induction layers arbitrary: x) (simp_all add: Let_def)



subsection \<open>Causal masking\<close>

lemma make_causal_mask_nth:
  "i < n \<Longrightarrow> j < n \<Longrightarrow> make_causal_mask n ! i ! j = (if i < j then NegInf else Fin 0)"
  by (auto simp: make_causal_mask_def triu_def)

lemma generate_causal_mask_nth:
  "i < n \<Longrightarrow> j < n \<Longrightarrow> generate_causal_mask n ! i ! j = (i < j)"
  by (auto simp: generate_causal_mask_def triu_def)

lemma length_make_causal_mask:
  "length (make_causal_mask n) = n \<and> (\<forall>i<n. length (make_causal_mask n ! i) = n)"
  by (simp add: make_causal_mask_def triu_def)

lemma length_decoder_layer_forward [simp]:
  "length (decoder_layer_forward l m memory x) = length x"
  by (simp add: decoder_layer_forward_def)

lemma length_fold_decoder [simp]:
  "length (fold (\<lambda>l x. decoder_layer_forward l m memory x) layers x) = length x"
  by (induction layers arbitrary: x) simp_all

lemma length_transformer_decoder [simp]:
  "length (transformer_decoder layers final_norm tgt memory m) = length tgt"
  by (simp add: transformer_decoder_def)

lemma attend_causal:
  assumes "length x = length x'" and "k < length x" and "\<forall>j\<le>k. x ! j = x' ! j"
  shows "attend score val (make_causal_mask (length x)) x k
         = attend score val (make_causal_mask (length x)) x' k"
proof -
  let ?n = "length x"
  let ?w = "\<lambda>y j. mask_weight (make_causal_mask ?n ! k ! j) (score k j (y ! k) (y ! j))"
  have w: "?w x j = ?w x' j" if "j < ?n" for j
  proof (cases "j \<le> k")
    case True
    then show ?thesis using assms(3) by simp
  next
    case False
    then show ?thesis using that assms(2) by (simp add: make_causal_mask_nth mask_weight_def)
  qed
  have w0: "?w x j = 0" if "j < ?n" "\<not> j \<le> k" for j
    using that assms(2) by (simp add: make_causal_mask_nth mask_weight_def)
  have Z: "sum_list (map (?w x) [0..<?n]) = sum_list (map (?w x') [0..<?n])"
    by (rule arg_cong [where f = sum_list], rule map_cong) (simp_all add: w)
  have "map (\<lambda>j. (?w x j / sum_list (map (?w x) [0..<?n])) *\<^sub>R val k j (x ! j)) [0..<?n]
      = map (\<lambda>j. (?w x' j / sum_list (map (?w x') [0..<?n])) *\<^sub>R val k j (x' ! j)) [0..<?n]"
  proof (rule map_cong)
    fix j assume "j \<in> set [0..<?n]"
    then have j: "j < ?n" by simp
    show "(?w x j / sum_list (map (?w x) [0..<?n])) *\<^sub>R val k j (x ! j)
        = (?w x' j / sum_list (map (?w x') [0..<?n])) *\<^sub>R val k j (x' ! j)"
    proof (cases "j \<le> k")
      case True
      then have "x ! j = x' ! j" using assms(3) by simp
      then show ?thesis using w [OF j] Z by simp
    next
      case False
      have "?w x j = 0" using j False by (rule w0)
      moreover have "?w x' j = 0" using w [OF j] calculation by simp
      ultimately show ?thesis by simp
    qed
  qed simp
  then have M: "sum_list (map (\<lambda>j. (?w x j / sum_list (map (?w x) [0..<?n])) *\<^sub>R val k j (x ! j))
                  [0..<?n])
      = sum_list (map (\<lambda>j. (?w x' j / sum_list (map (?w x') [0..<?n])) *\<^sub>R val k j (x' ! j))
                  [0..<?n])"
    by (rule arg_cong)
  have a: "attend score val (make_causal_mask ?n) x k
      = sum_list (map (\<lambda>j. (?w x j / sum_list (map (?w x) [0..<?n])) *\<^sub>R val k j (x ! j))
                  [0..<?n])"
    by (simp add: attend_def Let_def)
  have b: "attend score val (make_causal_mask ?n) x' k
      = sum_list (map (\<lambda>j. (?w x' j / sum_list (map (?w x') [0..<?n])) *\<^sub>R val k j (x' ! j))
                  [0..<?n])"
    by (simp add: attend_def Let_def assms(1) [symmetric])
  show ?thesis by (simp only: a b M)
qed

lemma decoder_layer_causal:
  assumes "length x = length x'" and "i < length x" and "\<forall>j\<le>i. x ! j = x' ! j"
    and "k \<le> i"
  shows "decoder_layer_forward l (make_causal_mask (length x)) memory x ! k
         = decoder_layer_forward l (make_causal_mask (length x)) memory x' ! k"
proof -
  have k: "k < length x" using assms(2,4) by simp
  have agree: "\<forall>j\<le>k. x ! j = x' ! j" using assms(3,4) by simp
  have "attend score val (make_causal_mask (length x)) x k
        = attend score val (make_causal_mask (length x)) x' k" for score val
    using assms(1) k agree by (rule attend_causal)
  then have H: "map (\<lambda>(score, val). attend score val (make_causal_mask (length x)) x k)
                  (dl_heads l)
              = map (\<lambda>(score, val). attend score val (make_causal_mask (length x)) x' k)
                  (dl_heads l)"
    by (intro map_cong) auto
  have xk: "x ! k = x' ! k" using agree by simp
  have k': "k < length x'" using k assms(1) by simp
  have "decoder_layer_forward l (make_causal_mask (length x)) memory x ! k
        = dl_mix l k memory (x ! k)
            (map (\<lambda>(score, val). attend score val (make_causal_mask (length x)) x k)
               (dl_heads l))"
    using k by (simp add: decoder_layer_forward_def)
  moreover have "decoder_layer_forward l (make_causal_mask (length x)) memory x' ! k
        = dl_mix l k memory (x' ! k)
            (map (\<lambda>(score, val). attend score val (make_causal_mask (length x)) x' k)
               (dl_heads l))"
    using k' by (simp add: decoder_layer_forward_def)
  ultimately show ?thesis by (simp only: H xk)
qed

lemma decoder_stack_causal:
  assumes "length x = length x'" and "i < length x" and "\<forall>j\<le>i. x ! j = x' ! j"
    and "k \<le> i"
  shows "fold (\<lambda>l y. decoder_layer_forward l (make_causal_mask (length x)) memory y) layers x ! k
       = fold (\<lambda>l y. decoder_layer_forward l (make_causal_mask (length x)) memory y) layers x' ! k"
  using assms
proof (induction layers arbitrary: x x')
  case Nil
  then show ?case by simp
next
  case (Cons l layers)
  let ?n = "length x"
  let ?y = "decoder_layer_forward l (make_causal_mask ?n) memory x"
  let ?y' = "decoder_layer_forward l (make_causal_mask ?n) memory x'"
  have len: "length ?y = length ?y'" using Cons.prems(1) by simp
  have lt: "i < length ?y" using Cons.prems(2) by simp
  have agree: "\<forall>j\<le>i. ?y ! j = ?y' ! j"
    using decoder_layer_causal [OF Cons.prems(1,2,3), of _ l memory] by simp
  have "fold (\<lambda>l y. decoder_layer_forward l (make_causal_mask (length ?y)) memory y) layers ?y ! k
      = fold (\<lambda>l y. decoder_layer_forward l (make_causal_mask (length ?y)) memory y) layers ?y' ! k"
    using len lt agree Cons.prems(4) by (rule Cons.IH)
  then show ?case by simp
qed

text \<open>
  C9. For every length \<open>L\<close> the float mask of \<^verbatim>\<open>_make_causal_mask\<close> is \<open>-inf\<close> exactly at the
  entries \<open>(i, j)\<close> with \<open>j > i\<close> and 0 elsewhere, and the boolean mask of
  \<^verbatim>\<open>generate_causal_mask\<close> is true exactly there. Under that mask the output of the decoder
  stack at every position \<open>k \<le> i\<close> is the same for two target sequences of equal length
  that agree on the positions up to \<open>i\<close>, whatever they hold at later positions.
\<close>

theorem C9_causal_mask_blocks_future:
  "(\<forall>i<L. \<forall>j<L. make_causal_mask L ! i ! j = (if i < j then NegInf else Fin 0) \<and>
                  generate_causal_mask L ! i ! j = (i < j)) \<and>
   (length tgt = length tgt' \<and> i < length tgt \<and> (\<forall>j\<le>i. tgt ! j = tgt' ! j) \<longrightarrow>
      (\<forall>k\<le>i. transformer_decoder layers final_norm tgt memory (make_causal_mask (length tgt)) ! k
            = transformer_decoder layers final_norm tgt' memory
                (make_causal_mask (length tgt')) ! k))"
proof (intro conjI allI impI)
  fix a b assume "a < L" "b < L"
  then show "make_causal_mask L ! a ! b = (if a < b then NegInf else Fin 0)"
    by (rule make_causal_mask_nth)
  from \<open>a < L\<close> \<open>b < L\<close> show "generate_causal_mask L ! a ! b = (a < b)"
    by (rule generate_causal_mask_nth)
next
  fix k
  assume h: "length tgt = length tgt' \<and> i < length tgt \<and> (\<forall>j\<le>i. tgt ! j = tgt' ! j)"
    and k: "k \<le> i"
  then have len: "length tgt = length tgt'" and lt: "i < length tgt"
    and agree: "\<forall>j\<le>i. tgt ! j = tgt' ! j" by simp_all
  have kl: "k < length tgt" using k lt by simp
  have "fold (\<lambda>l y. decoder_layer_forward l (make_causal_mask (length tgt)) memory y) layers tgt ! k
      = fold (\<lambda>l y. decoder_layer_forward l (make_causal_mask (length tgt)) memory y) layers tgt' ! k"
    using len lt agree k by (rule decoder_stack_causal)
  then show "transformer_decoder layers final_norm tgt memory (make_causal_mask (length tgt)) ! k
      = transformer_decoder layers final_norm tgt' memory (make_causal_mask (length tgt')) ! k"
    using kl len by (simp add: transformer_decoder_def)
qed


theorem C9_causal_mask_witness:
  "make_causal_mask 3 ! 0 ! 1 = NegInf \<and> make_causal_mask 3 ! 1 ! 1 = Fin 0 \<and>
   generate_causal_mask 3 ! 1 ! 2 \<and>
   transformer_decoder
       [\<lparr>dl_heads = [(\<lambda>i j a b. a * b, \<lambda>i j a. a)], dl_mix = (\<lambda>i m a vs. a + sum_list vs)\<rparr>]
       (\<lambda>a. a) [1, 2, 3 :: real] () (make_causal_mask 3) ! 1
   = transformer_decoder
       [\<lparr>dl_heads = [(\<lambda>i j a b. a * b, \<lambda>i j a. a)], dl_mix = (\<lambda>i m a vs. a + sum_list vs)\<rparr>]
       (\<lambda>a. a) [1, 2, 7 :: real] () (make_causal_mask 3) ! 1"
proof -
  have agree: "\<forall>j\<le>1. [1, 2, 3 :: real] ! j = [1, 2, 7] ! j"
    by (simp add: nth_Cons')
  have h: "length [1, 2, 3 :: real] = length [1, 2, 7 :: real] \<and> 1 < length [1, 2, 3 :: real] \<and>
           (\<forall>j\<le>1. [1, 2, 3 :: real] ! j = [1, 2, 7] ! j)"
    using agree by simp
  let ?layers = "[\<lparr>dl_heads = [(\<lambda>(i::nat) (j::nat) (a::real) b. a * b, \<lambda>(i::nat) (j::nat) (a::real). a)],
                    dl_mix = (\<lambda>(i::nat) (m::unit) (a::real) vs. a + sum_list vs)\<rparr>]"
  have e: "transformer_decoder ?layers (\<lambda>a. a) [1, 2, 3 :: real] ()
             (make_causal_mask (length [1, 2, 3 :: real])) ! 1
         = transformer_decoder ?layers (\<lambda>a. a) [1, 2, 7 :: real] ()
             (make_causal_mask (length [1, 2, 7 :: real])) ! 1"
    using C9_causal_mask_blocks_future
            [of 3 "[1, 2, 3 :: real]" "[1, 2, 7 :: real]" 1 ?layers "\<lambda>a. a" "()"] h
    by blast
  have l: "length [1, 2, 3 :: real] = 3" "length [1, 2, 7 :: real] = 3" by simp_all
  from e have e': "transformer_decoder ?layers (\<lambda>a. a) [1, 2, 3 :: real] () (make_causal_mask 3) ! 1
         = transformer_decoder ?layers (\<lambda>a. a) [1, 2, 7 :: real] () (make_causal_mask 3) ! 1"
    by (simp only: l)
  have m: "make_causal_mask 3 ! 0 ! 1 = NegInf" "make_causal_mask 3 ! 1 ! 1 = Fin 0"
    "generate_causal_mask 3 ! 1 ! 2"
    by (simp_all add: make_causal_mask_nth generate_causal_mask_nth)
  from m e' show ?thesis by blast
qed

subsection \<open>Autoregressive length\<close>

lemma decode_loop_length:
  assumes "\<forall>s\<in>set steps. \<exists>m. memory_at s = Inr m"
    and "\<forall>tgt m c. length (decoder tgt m c) = length tgt"
    and "tgt \<noteq> []"
  shows "\<exists>outs'. decode_loop memory_at decoder action_head steps tgt outs = Inr outs' \<and>
           length outs' = length outs + length steps \<and>
           length (concat outs') = length (concat outs) + length steps"
  using assms(1,3)
proof (induction steps arbitrary: tgt outs)
  case Nil
  then show ?case by simp
next
  case (Cons s steps)
  from Cons.prems(1) obtain m where m: "memory_at s = Inr m" by auto
  let ?out = "decoder tgt m (make_causal_mask (length tgt))"
  let ?last = "drop (length ?out - 1) ?out"
  have lo: "length ?out = length tgt" using assms(2) by simp
  then have ll: "length ?last = 1" using Cons.prems(2) by (cases tgt) simp_all
  have ne: "tgt @ ?last \<noteq> []" using Cons.prems(2) by simp
  have rest: "\<forall>s\<in>set steps. \<exists>m. memory_at s = Inr m" using Cons.prems(1) by simp
  from Cons.IH [OF rest ne, of "outs @ [map action_head ?last]"]
  obtain outs' where
    o: "decode_loop memory_at decoder action_head steps (tgt @ ?last)
          (outs @ [map action_head ?last]) = Inr outs'"
    and l1: "length outs' = length (outs @ [map action_head ?last]) + length steps"
    and l2: "length (concat outs') = length (concat (outs @ [map action_head ?last])) + length steps"
    by blast
  have "decode_loop memory_at decoder action_head (s # steps) tgt outs = Inr outs'"
    using m o by (simp add: Let_def)
  moreover have "length outs' = length outs + length (s # steps)" using l1 by simp
  moreover have "length (concat outs') = length (concat outs) + length (s # steps)"
    using l2 ll by simp
  ultimately show ?case by blast
qed

lemma IDM_forward_eval_length:
  assumes "encode False 0 x_before x_after = Inr src"
    and "\<forall>tgt m c. length (decoder tgt m c) = length tgt"
    and "1 \<le> num_eval_tokens"
  shows "\<exists>out. IDM_forward False encode decoder action_head flatten mask_token min_tokens
                 max_tokens num_eval_tokens randint x_before x_after = Inr out \<and>
               int (length (ad_la out)) = num_eval_tokens"
proof -
  have "\<forall>s\<in>set [0..<nat num_eval_tokens]. \<exists>m. (\<lambda>step_i. Inr src) s = Inr m"
    by simp
  from decode_loop_length [of "[0..<nat num_eval_tokens]" "\<lambda>step_i. Inr src", OF this assms(2),
        of "[mask_token]" action_head "[]"]
  obtain outs where
    o: "decode_loop (\<lambda>step_i. Inr src) decoder action_head [0..<nat num_eval_tokens]
          [mask_token] [] = Inr outs"
    and l1: "length outs = nat num_eval_tokens"
    and l2: "length (concat outs) = nat num_eval_tokens"
    by auto
  have ne: "outs \<noteq> []" using l1 assms(3) by auto
  show ?thesis using assms(1,3) o ne l2 by (simp add: IDM_forward_def torch_cat_def)
qed

lemma IDM_forward_train_length:
  assumes "\<forall>step. \<exists>src. encode True step x_before x_after = Inr src"
    and "\<forall>tgt m c. length (decoder tgt m c) = length tgt"
    and "1 \<le> min_tokens" and "min_tokens \<le> max_tokens"
    and "\<forall>low high. low < high \<longrightarrow> low \<le> randint low high \<and> randint low high < high"
  shows "\<exists>out. IDM_forward True encode decoder action_head flatten mask_token min_tokens
                 max_tokens num_eval_tokens randint x_before x_after = Inr out \<and>
               int (length (ad_la out)) = randint min_tokens (max_tokens + 1) \<and>
               min_tokens \<le> int (length (ad_la out)) \<and>
               int (length (ad_la out)) \<le> max_tokens"
proof -
  let ?n = "randint min_tokens (max_tokens + 1)"
  have lt: "min_tokens < max_tokens + 1" using assms(4) by simp
  have r: "min_tokens \<le> ?n" "?n < max_tokens + 1" using assms(5) lt by blast+
  have "\<forall>s\<in>set [0..<nat ?n]. \<exists>m. (\<lambda>step_i. encode True step_i x_before x_after) s = Inr m"
    using assms(1) by simp
  from decode_loop_length [OF this assms(2), of "[mask_token]" action_head "[]"]
  obtain outs where
    o: "decode_loop (\<lambda>step_i. encode True step_i x_before x_after) decoder action_head
          [0..<nat ?n] [mask_token] [] = Inr outs"
    and l1: "length outs = nat ?n"
    and l2: "length (concat outs) = nat ?n"
    by auto
  have ne: "outs \<noteq> []" using l1 r(1) assms(3) by auto
  show ?thesis using assms(3,4) r o ne l2 by (simp add: IDM_forward_def torch_cat_def Let_def)
qed


text \<open>
  C7. Suppose the decoder returns as many positions as its target has, context encoding
  succeeds at every step, the token counts are positive with \<open>min_tokens \<le> max_tokens\<close>, and
  \<^verbatim>\<open>torch.randint(low, high)\<close> returns a value in \<open>[low, high)\<close>. Then \<^verbatim>\<open>IDM.forward\<close> returns,
  and the number of action vectors it returns is \<^verbatim>\<open>num_eval_tokens\<close> in evaluation mode and
  the value drawn by \<^verbatim>\<open>randint(min_tokens, max_tokens + 1)\<close> in training mode, which lies in
  \<open>[min_tokens, max_tokens]\<close>; the count does not depend on the images, the context, the
  decoder or the action head, so nothing in the content ends the decoding early.
\<close>

theorem C7_returned_token_count:
  assumes "\<forall>tgt m c. length (decoder tgt m c) = length tgt"
    and "\<forall>step. \<exists>src. encode training step x_before x_after = Inr src"
    and "1 \<le> num_eval_tokens" and "1 \<le> min_tokens" and "min_tokens \<le> max_tokens"
    and "\<forall>low high. low < high \<longrightarrow> low \<le> randint low high \<and> randint low high < high"
  shows "\<exists>out. IDM_forward training encode decoder action_head flatten mask_token min_tokens
                 max_tokens num_eval_tokens randint x_before x_after = Inr out \<and>
           int (length (ad_la out)) =
             (if training then randint min_tokens (max_tokens + 1) else num_eval_tokens) \<and>
           (training \<longrightarrow> min_tokens \<le> int (length (ad_la out)) \<and>
                         int (length (ad_la out)) \<le> max_tokens)"
proof (cases training)
  case True
  have "\<forall>step. \<exists>src. encode True step x_before x_after = Inr src"
    using assms(2) True by simp
  then have "\<exists>out. IDM_forward True encode decoder action_head flatten mask_token min_tokens
                 max_tokens num_eval_tokens randint x_before x_after = Inr out \<and>
               int (length (ad_la out)) = randint min_tokens (max_tokens + 1) \<and>
               min_tokens \<le> int (length (ad_la out)) \<and>
               int (length (ad_la out)) \<le> max_tokens"
    using assms(1,4,5,6) by (rule IDM_forward_train_length)
  then show ?thesis using True by simp
next
  case False
  from assms(2) False obtain src where "encode False 0 x_before x_after = Inr src"
    by auto
  then have "\<exists>out. IDM_forward False encode decoder action_head flatten mask_token min_tokens
                 max_tokens num_eval_tokens randint x_before x_after = Inr out \<and>
               int (length (ad_la out)) = num_eval_tokens"
    using assms(1,3) by (rule IDM_forward_eval_length)
  then show ?thesis using False by simp
qed

theorem C7_returned_token_count_witness:
  "IDM_forward False (\<lambda>t s b a. Inr ()) (\<lambda>tgt m c. tgt) (\<lambda>t. t) (\<lambda>l. l) (0::nat) 2 10 3
     (\<lambda>low high. low) [] []
   = Inr \<lparr>ad_la = [0, 0, 0], ad_la_flat = Some [0, 0, 0]\<rparr> \<and>
   IDM_forward True (\<lambda>t s b a. Inr ()) (\<lambda>tgt m c. tgt) (\<lambda>t. t) (\<lambda>l. l) (0::nat) 2 10 3
     (\<lambda>low high. low) [] []
   = Inr \<lparr>ad_la = [0, 0], ad_la_flat = None\<rparr> \<and>
   (\<exists>out. IDM_forward True (\<lambda>t s b a. Inr ()) (\<lambda>tgt m c. tgt) (\<lambda>t. t) (\<lambda>l. l) (0::nat) 2 10 3
            (\<lambda>low high. high - 1) [] [] = Inr out \<and> int (length (ad_la out)) = 10)"
proof -
  have e1: "IDM_forward False (\<lambda>t s b a. Inr ()) (\<lambda>tgt m c. tgt) (\<lambda>t. t) (\<lambda>l. l) (0::nat) 2 10 3
     (\<lambda>low high. low) [] []
   = Inr \<lparr>ad_la = [0, 0, 0], ad_la_flat = Some [0, 0, 0]\<rparr>"
    by (simp add: IDM_forward_def torch_cat_def Let_def upt_rec numeral_nat)
  have e2: "IDM_forward True (\<lambda>t s b a. Inr ()) (\<lambda>tgt m c. tgt) (\<lambda>t. t) (\<lambda>l. l) (0::nat) 2 10 3
     (\<lambda>low high. low) [] []
   = Inr \<lparr>ad_la = [0, 0], ad_la_flat = None\<rparr>"
    by (simp add: IDM_forward_def torch_cat_def Let_def upt_rec numeral_nat)
  have "\<exists>out. IDM_forward True (\<lambda>t s b a. Inr ()) (\<lambda>tgt m c. tgt) (\<lambda>t. t) (\<lambda>l. l) (0::nat) 2 10 3
            (\<lambda>low high. high - 1) [] [] = Inr out \<and>
          int (length (ad_la out)) = (if True then (10 + 1) - 1 else 3) \<and>
          (True \<longrightarrow> 2 \<le> int (length (ad_la out)) \<and> int (length (ad_la out)) \<le> 10)"
    by (rule C7_returned_token_count) auto
  then have e3: "\<exists>out. IDM_forward True (\<lambda>t s b a. Inr ()) (\<lambda>tgt m c. tgt) (\<lambda>t. t) (\<lambda>l. l) (0::nat)
            2 10 3 (\<lambda>low high. high - 1) [] [] = Inr out \<and> int (length (ad_la out)) = 10"
    by auto
  from e1 e2 e3 show ?thesis by blast
qed

subsection \<open>Shapes\<close>

lemma shape3_nth:
  assumes "shape3 B P E t" and "b < B" and "p < P"
  shows "length t = B \<and> length (t ! b) = P \<and> length (t ! b ! p) = E"
proof -
  from assms(1) have l: "length t = B"
    and r: "\<forall>s\<in>set t. length s = P \<and> (\<forall>v\<in>set s. length v = E)"
    by (simp_all add: shape3_def)
  have "t ! b \<in> set t" using l assms(2) by simp
  with r have lb: "length (t ! b) = P" and v: "\<forall>v\<in>set (t ! b). length v = E" by simp_all
  have "t ! b ! p \<in> set (t ! b)" using lb assms(3) by simp
  with v have "length (t ! b ! p) = E" by simp
  with l lb show ?thesis by simp
qed

lemma shape3_row:
  assumes "shape3 B P E t" and "b < B"
  shows "length (t ! b) = P"
proof -
  have "t ! b \<in> set t" using assms by (simp add: shape3_def)
  then show ?thesis using assms(1) by (simp add: shape3_def)
qed

lemma shape3_I:
  assumes "length t = B" and "\<And>b. b < B \<Longrightarrow> length (t ! b) = P"
    and "\<And>b p. b < B \<Longrightarrow> p < P \<Longrightarrow> length (t ! b ! p) = E"
  shows "shape3 B P E t"
  unfolding shape3_def
proof (intro conjI ballI)
  show "length t = B" by (rule assms(1))
next
  fix s assume "s \<in> set t"
  then obtain b where b: "b < B" "s = t ! b" using assms(1) by (auto simp: in_set_conv_nth)
  then show "length s = P" using assms(2) by simp
  fix v assume "v \<in> set s"
  then obtain p where "p < P" "v = s ! p"
    using \<open>length s = P\<close> by (auto simp: in_set_conv_nth)
  then show "length v = E" using assms(3) b by simp
qed

lemma shape4_sample:
  assumes "shape4 B D P E t" and "b < B"
  shows "shape3 D P E (t ! b)"
proof -
  have "t ! b \<in> set t" using assms by (simp add: shape4_def)
  then show ?thesis using assms(1) by (simp add: shape4_def)
qed

lemma shape4_nth:
  assumes "shape4 B D P E t" and "b < B" and "d < D" and "p < P"
  shows "length t = B \<and> length (t ! b) = D \<and> length (t ! b ! d) = P \<and>
         length (t ! b ! d ! p) = E"
  using shape3_nth [OF shape4_sample [OF assms(1,2)] assms(3,4)] assms(1)
  by (simp add: shape4_def)

lemma shape4_I:
  assumes "length t = B" and "\<And>b. b < B \<Longrightarrow> shape3 D P E (t ! b)"
  shows "shape4 B D P E t"
  unfolding shape4_def using assms by (auto simp: in_set_conv_nth)

lemma shape4_dims:
  assumes "shape4 B D P E t" and "0 < B" and "0 < D" and "0 < P"
  shows "dim1 t = D" and "dim2 t = P" and "dim3 t = E"
proof -
  from assms(1,2) obtain r rs where t: "t = r # rs" and r: "shape3 D P E r"
    by (cases t) (auto simp: shape4_def)
  from r assms(3) obtain s ss where rr: "r = s # ss" and s: "length s = P"
    and sv: "\<forall>v\<in>set s. length v = E"
    by (cases r) (auto simp: shape3_def)
  from s assms(4) obtain v vs where ss: "s = v # vs" by (cases s) auto
  show "dim1 t = D" using t r by (simp add: dim1_def shape3_def)
  show "dim2 t = P" using t rr s by (simp add: dim2_def dim1_def)
  show "dim3 t = E" using t rr ss sv by (simp add: dim3_def dim2_def dim1_def)
qed

lemma layer_outputs_shape:
  assumes "\<forall>l\<in>set layers. \<forall>x. shape3 B P E x \<longrightarrow> shape3 B P E (l x)"
    and "shape3 B P E x"
  shows "\<forall>y\<in>set (layer_outputs layers x). shape3 B P E y"
  using assms
proof (induction layers arbitrary: x)
  case Nil
  then show ?case by simp
next
  case (Cons l layers)
  have y: "shape3 B P E (l x)" using Cons.prems by simp
  have "\<forall>l\<in>set layers. \<forall>x. shape3 B P E x \<longrightarrow> shape3 B P E (l x)"
    using Cons.prems(1) by simp
  from Cons.IH [OF this y] y show ?case by (simp add: Let_def)
qed

lemma VisionEncoder_forward_shape:
  assumes "\<forall>x. shape3 (length x) P E (pe x)"
    and "\<forall>l\<in>set layers. \<forall>B x. shape3 B P E x \<longrightarrow> shape3 B P E (l x)"
    and "layers \<noteq> []"
  shows "\<exists>t. VisionEncoder_forward pe layers x = Inr t \<and>
             shape4 (length x) (length layers) P E t"
proof -
  let ?B = "length x"
  let ?outs = "layer_outputs layers (pe x)"
  let ?t = "map (\<lambda>b. map (\<lambda>out. out ! b) ?outs) [0..<length (pe x)]"
  have px: "shape3 ?B P E (pe x)" using assms(1) by simp
  then have lp: "length (pe x) = ?B" by (simp add: shape3_def)
  have "\<forall>l\<in>set layers. \<forall>x. shape3 ?B P E x \<longrightarrow> shape3 ?B P E (l x)"
    using assms(2) by blast
  from layer_outputs_shape [OF this px]
  have outs: "\<forall>y\<in>set ?outs. shape3 ?B P E y" .
  have eq: "VisionEncoder_forward pe layers x = Inr ?t"
    using assms(3) by (simp add: VisionEncoder_forward_def run_transformer_def)
  have "shape4 ?B (length layers) P E ?t"
  proof (rule shape4_I)
    show "length ?t = ?B" using lp by simp
  next
    fix b assume b: "b < ?B"
    have tb: "?t ! b = map (\<lambda>out. out ! b) ?outs" using b lp by simp
    show "shape3 (length layers) P E (?t ! b)"
    proof (rule shape3_I)
      show "length (?t ! b) = length layers" using tb by simp
    next
      fix d assume d: "d < length layers"
      then have sd: "shape3 ?B P E (?outs ! d)" using outs by simp
      then show "length (?t ! b ! d) = P" using tb d b shape3_row [OF sd b] by simp
      fix p assume p: "p < P"
      from shape3_nth [OF sd b p]
      have "length (?outs ! d ! b ! p) = E" by simp
      then show "length (?t ! b ! d ! p) = E" using tb d by simp
    qed
  qed
  with eq show ?thesis by blast
qed

lemma length_concat_const:
  "\<forall>x\<in>set xs. length x = n \<Longrightarrow> length (concat xs) = length xs * n"
  by (induction xs) simp_all

lemma map_const_replicate:
  "\<forall>x\<in>set xs. f x = c \<Longrightarrow> map f xs = replicate (length xs) c"
  by (induction xs) simp_all

lemma shape3_signature:
  assumes "shape3 D P E r"
  shows "map (map length) r = replicate D (replicate P E)"
proof -
  have "\<forall>s\<in>set r. map length s = replicate P E"
  proof
    fix s assume "s \<in> set r"
    then have "length s = P" and "\<forall>v\<in>set s. length v = E"
      using assms by (simp_all add: shape3_def)
    then show "map length s = replicate P E" using map_const_replicate [of s length E] by simp
  qed
  then have "map (map length) r = replicate (length r) (replicate P E)"
    by (rule map_const_replicate)
  then show ?thesis using assms by (simp add: shape3_def)
qed

lemma shape4_signature:
  assumes "shape4 B D P E t"
  shows "map (map (map length)) t = replicate B (replicate D (replicate P E))"
proof -
  have "\<forall>r\<in>set t. map (map length) r = replicate D (replicate P E)"
    using assms by (auto simp: shape4_def intro: shape3_signature)
  then have "map (map (map length)) t = replicate (length t) (replicate D (replicate P E))"
    by (rule map_const_replicate)
  then show ?thesis using assms by (simp add: shape4_def)
qed

lemma select_time_total:
  assumes "\<forall>s\<in>set ob. 2 \<le> length s" and "k = - 1 \<or> k = - 2"
  shows "\<exists>xs. select_time ob k = Inr xs \<and> length xs = length ob"
  using assms(1)
proof (induction ob)
  case Nil
  then show ?case by simp
next
  case (Cons s ob)
  then obtain xs where xs: "select_time ob k = Inr xs" "length xs = length ob" by auto
  have "2 \<le> length s" using Cons.prems by simp
  then have "\<exists>x. py_index s k = Inr x" using assms(2) by (auto simp: py_index_def)
  then obtain x where "py_index s k = Inr x" by blast
  with xs show ?case by simp
qed

lemma mse_loss_none_shape:
  assumes "shape4 B D P E pred" and "shape4 B D P E target"
  shows "\<exists>diff. mse_loss_none pred target = Inr diff \<and> shape4 B D P E diff \<and>
           (\<forall>b<B. \<forall>d<D. \<forall>p<P. \<forall>e<E.
              diff ! b ! d ! p ! e = (pred ! b ! d ! p ! e - target ! b ! d ! p ! e)\<^sup>2)"
proof -
  let ?f = "\<lambda>x y :: real. (x - y)\<^sup>2"
  let ?diff = "map2 (map2 (map2 (map2 ?f))) pred target"
  have sig: "map (map (map length)) pred = map (map (map length)) target"
    using shape4_signature [OF assms(1)] shape4_signature [OF assms(2)] by simp
  then have eq: "mse_loss_none pred target = Inr ?diff" by (simp add: mse_loss_none_def)
  have lp: "length pred = B" "length target = B" using assms by (simp_all add: shape4_def)
  have ix: "length (?diff ! b) = D \<and> length (?diff ! b ! d) = P \<and>
            length (?diff ! b ! d ! p) = E \<and>
            (\<forall>e<E. ?diff ! b ! d ! p ! e = ?f (pred ! b ! d ! p ! e) (target ! b ! d ! p ! e))"
    if "b < B" "d < D" "p < P" for b d p
  proof -
    note a = shape4_nth [OF assms(1) that] and c = shape4_nth [OF assms(2) that]
    have 1: "?diff ! b = map2 (map2 (map2 ?f)) (pred ! b) (target ! b)"
      using that(1) lp by simp
    have 2: "map2 (map2 (map2 ?f)) (pred ! b) (target ! b) ! d
             = map2 (map2 ?f) (pred ! b ! d) (target ! b ! d)"
      using that(2) a c by simp
    have 3: "map2 (map2 ?f) (pred ! b ! d) (target ! b ! d) ! p
             = map2 ?f (pred ! b ! d ! p) (target ! b ! d ! p)"
      using that(3) a c by simp
    have 4: "length (map2 (map2 (map2 ?f)) (pred ! b) (target ! b)) = D"
      "length (map2 (map2 ?f) (pred ! b ! d) (target ! b ! d)) = P"
      "length (map2 ?f (pred ! b ! d ! p) (target ! b ! d ! p)) = E"
      using a c by simp_all
    have 5: "\<forall>e<E. map2 ?f (pred ! b ! d ! p) (target ! b ! d ! p) ! e
                  = ?f (pred ! b ! d ! p ! e) (target ! b ! d ! p ! e)"
      using a c by simp
    show ?thesis unfolding 1 2 3 4 using 5 by simp
  qed
  have sh: "shape4 B D P E ?diff"
  proof (rule shape4_I)
    show "length ?diff = B" using lp by simp
  next
    fix b assume b: "b < B"
    show "shape3 D P E (?diff ! b)"
    proof (rule shape3_I)
      have "length (pred ! b) = D" "length (target ! b) = D"
        using shape4_sample [OF assms(1) b] shape4_sample [OF assms(2) b]
        by (simp_all add: shape3_def)
      then show "length (?diff ! b) = D" using b lp by simp
    next
      fix d assume d: "d < D"
      have "length (pred ! b ! d) = P" "length (target ! b ! d) = P"
        using shape3_row [OF shape4_sample [OF assms(1) b] d]
              shape3_row [OF shape4_sample [OF assms(2) b] d] by simp_all
      moreover have "?diff ! b ! d = map2 (map2 ?f) (pred ! b ! d) (target ! b ! d)"
      proof -
        have "length (pred ! b) = D" "length (target ! b) = D"
          using shape4_sample [OF assms(1) b] shape4_sample [OF assms(2) b]
          by (simp_all add: shape3_def)
        then show ?thesis using b d lp by simp
      qed
      ultimately show "length (?diff ! b ! d) = P" by simp
      fix p assume "p < P"
      from ix [OF b d this] show "length (?diff ! b ! d ! p) = E" by simp
    qed
  qed
  from eq sh ix show ?thesis by blast
qed

lemma view_permute_shape:
  assumes "shape3 B P (D * E) out"
  shows "\<exists>pred. view_permute B P D E out = Inr pred \<and> shape4 B D P E pred"
proof -
  let ?flat = "concat (concat out)"
  have rows: "\<forall>s\<in>set out. length s = P" using assms by (simp add: shape3_def)
  have l1: "length (concat out) = B * P"
    using length_concat_const [OF rows] assms by (simp add: shape3_def)
  have "\<forall>v\<in>set (concat out). length v = D * E" using assms by (auto simp: shape3_def)
  from length_concat_const [OF this] l1
  have n: "length ?flat = B * P * D * E" by (simp add: mult.assoc)
  let ?pred = "map (\<lambda>b. map (\<lambda>d. map (\<lambda>p. map (\<lambda>e. ?flat ! (((b * P + p) * D + d) * E + e))
                                                    [0..<E]) [0..<P]) [0..<D]) [0..<B]"
  have eq: "view_permute B P D E out = Inr ?pred"
    using n by (simp add: view_permute_def Let_def)
  have "shape4 B D P E ?pred"
    by (rule shape4_I, simp, rule shape3_I) simp_all
  with eq show ?thesis by blast
qed

lemma WorldModel_forward_shape:
  assumes "\<forall>x. shape3 (length x) P E (pe x)"
    and "\<forall>l\<in>set layers. \<forall>B x. shape3 B P E x \<longrightarrow> shape3 B P E (l x)"
    and "\<forall>B s a m. shape3 B P (length layers * E) s \<longrightarrow>
                     shape3 B P (length layers * E) (decoder s a m)"
    and "layers \<noteq> []" and "0 < P" and "before_obs \<noteq> []"
  shows "\<exists>pred. WorldModel_forward pe layers action_encoder decoder before_obs action
                  action_mask = Inr pred \<and>
               shape4 (length before_obs) (length layers) P E pred"
proof -
  let ?B = "length before_obs" and ?D = "length layers"
  from VisionEncoder_forward_shape [OF assms(1,2,4), of before_obs]
  obtain t where t: "VisionEncoder_forward pe layers before_obs = Inr t"
    and sh: "shape4 ?B ?D P E t" by blast
  have B: "0 < ?B" using assms(6) by simp
  have D: "0 < ?D" using assms(4) by simp
  note dims = shape4_dims [OF sh B D assms(5)]
  have lt: "length t = ?B" using sh by (simp add: shape4_def)
  let ?state = "map (\<lambda>b. map (\<lambda>p. concat (map (\<lambda>d. t ! b ! d ! p) [0..<?D])) [0..<P]) [0..<?B]"
  have st: "shape3 ?B P (?D * E) ?state"
  proof (rule shape3_I)
    show "length ?state = ?B" by simp
  next
    fix b assume b: "b < ?B"
    then show "length (?state ! b) = P" by simp
    fix p assume p: "p < P"
    have "\<forall>v\<in>set (map (\<lambda>d. t ! b ! d ! p) [0..<?D]). length v = E"
      using shape4_nth [OF sh b _ p] by auto
    from length_concat_const [OF this]
    show "length (?state ! b ! p) = ?D * E" using b p by simp
  qed
  let ?out = "decoder ?state (action_encoder action) action_mask"
  have "shape3 ?B P (?D * E) ?out" using assms(3) st by blast
  from view_permute_shape [OF this]
  obtain pred where v: "view_permute ?B P ?D E ?out = Inr pred"
    and ps: "shape4 ?B ?D P E pred" by blast
  have "WorldModel_forward pe layers action_encoder decoder before_obs action action_mask
        = Inr pred"
    using t lt v by (simp add: WorldModel_forward_def Let_def dims)
  with ps show ?thesis by blast
qed

lemma sum_list_concat_map: "sum_list (concat xss) = sum_list (map sum_list (xss :: real list list))"
  by (induction xss) simp_all

lemma sum_list_upt: "sum_list (map f [0..<n]) = (\<Sum>i<n. f i)"
  by (simp add: interv_sum_list_conv_sum_set_nat atLeast0LessThan)

lemma sum_list_nth_sum: "sum_list xs = (\<Sum>i<length xs. xs ! i)"
  by (simp add: sum_list_sum_nth atLeast0LessThan)

lemma mean_dims_023_value:
  fixes diff :: "real list list list list"
  assumes "shape4 B D P E diff" and "0 < B" and "d < D"
  shows "length (mean_dims_023 diff) = D"
    and "mean_dims_023 diff ! d
         = (\<Sum>b<B. \<Sum>p<P. \<Sum>e<E. diff ! b ! d ! p ! e) / real (B * P * E)"
proof -
  have lB: "length diff = B" using assms(1) by (simp add: shape4_def)
  from assms(1,2) obtain r rs where "diff = r # rs" and "shape3 D P E r"
    by (cases diff) (auto simp: shape4_def)
  then have d1: "dim1 diff = D" by (simp add: dim1_def shape3_def)
  show "length (mean_dims_023 diff) = D" by (simp add: mean_dims_023_def d1)
  let ?xs = "concat (map (\<lambda>b. concat (diff ! b ! d)) [0..<B])"
  have row: "length (diff ! b ! d) = P \<and> (\<forall>v\<in>set (diff ! b ! d). length v = E)"
    if "b < B" for b
  proof -
    have "shape3 D P E (diff ! b)" using assms(1) that by (rule shape4_sample)
    moreover have "diff ! b ! d \<in> set (diff ! b)"
      using calculation assms(3) by (simp add: shape3_def)
    ultimately show ?thesis by (simp add: shape3_def)
  qed
  have lrow: "length (concat (diff ! b ! d)) = P * E" if "b < B" for b
    using length_concat_const [of "diff ! b ! d" E] row [OF that] by simp
  have "\<forall>x\<in>set (map (\<lambda>b. concat (diff ! b ! d)) [0..<B]). length x = P * E"
    using lrow by auto
  from length_concat_const [OF this]
  have len: "length ?xs = B * P * E" by (simp add: mult.assoc)
  have srow: "sum_list (concat (diff ! b ! d)) = (\<Sum>p<P. \<Sum>e<E. diff ! b ! d ! p ! e)"
    if b: "b < B" for b
  proof -
    have "sum_list (concat (diff ! b ! d)) = sum_list (map sum_list (diff ! b ! d))"
      by (rule sum_list_concat_map)
    also have "\<dots> = (\<Sum>p<length (diff ! b ! d). map sum_list (diff ! b ! d) ! p)"
      using sum_list_nth_sum [of "map sum_list (diff ! b ! d)"] by simp
    also have "\<dots> = (\<Sum>p<P. sum_list (diff ! b ! d ! p))"
      using row [OF b] by simp
    also have "\<dots> = (\<Sum>p<P. \<Sum>e<E. diff ! b ! d ! p ! e)"
    proof (rule sum.cong)
      fix p assume "p \<in> {..<P}"
      then have "diff ! b ! d ! p \<in> set (diff ! b ! d)" using row [OF b] by simp
      then have "length (diff ! b ! d ! p) = E" using row [OF b] by simp
      then show "sum_list (diff ! b ! d ! p) = (\<Sum>e<E. diff ! b ! d ! p ! e)"
        using sum_list_nth_sum [of "diff ! b ! d ! p"] by simp
    qed simp
    finally show ?thesis .
  qed
  have "sum_list ?xs = sum_list (map (\<lambda>b. sum_list (concat (diff ! b ! d))) [0..<B])"
    by (simp add: sum_list_concat_map comp_def)
  also have "\<dots> = (\<Sum>b<B. sum_list (concat (diff ! b ! d)))" by (rule sum_list_upt)
  also have "\<dots> = (\<Sum>b<B. \<Sum>p<P. \<Sum>e<E. diff ! b ! d ! p ! e)"
    by (rule sum.cong) (simp_all add: srow)
  finally have s: "sum_list ?xs = (\<Sum>b<B. \<Sum>p<P. \<Sum>e<E. diff ! b ! d ! p ! e)" .
  have "mean_dims_023 diff ! d = mean ?xs"
    using assms(3) by (simp add: mean_dims_023_def d1 lB)
  then show "mean_dims_023 diff ! d
         = (\<Sum>b<B. \<Sum>p<P. \<Sum>e<E. diff ! b ! d ! p ! e) / real (B * P * E)"
    by (simp only: mean_def s len)
qed

text \<open>
  C8. Let the EMA encoder have at least one layer, let its patch embedding produce \<open>P > 0\<close>
  patches of \<open>E > 0\<close> components per image, let its layers and the decoder keep the shape
  of their input, and let the batch hold an action sequence and at least one sample, each
  with at least two observations. Then \<^verbatim>\<open>WorldModel.label\<close> returns a loss with exactly one
  entry per encoder layer, and the entry of layer \<open>d\<close> is the sum over all samples,
  patches and embedding components of the squared difference between the prediction and
  the EMA encoding of the observation at offset \<open>-1\<close>, divided by the number of those
  elements.
\<close>

theorem C8_loss_one_scalar_per_layer:
  assumes "\<forall>x. shape3 (length x) P E (ema_patch_embed x)"
    and "\<forall>l\<in>set ema_layers. \<forall>B x. shape3 B P E x \<longrightarrow> shape3 B P E (l x)"
    and "\<forall>B s a m. shape3 B P (length ema_layers * E) s \<longrightarrow>
                     shape3 B P (length ema_layers * E) (decoder s a m)"
    and "ema_layers \<noteq> []" and "0 < P" and "0 < E"
    and "la batch = Some la_seq"
    and "obs batch \<noteq> []" and "\<forall>s\<in>set (obs batch). 2 \<le> length s"
  shows "\<exists>loss before_obs target_obs pred target_embed.
    WorldModel_label ema_patch_embed ema_layers action_encoder decoder batch = Inr loss \<and>
    select_time (obs batch) (- 2) = Inr before_obs \<and>
    select_time (obs batch) (- 1) = Inr target_obs \<and>
    WorldModel_forward ema_patch_embed ema_layers action_encoder decoder before_obs la_seq
      (la_mask batch) = Inr pred \<and>
    VisionEncoder_forward ema_patch_embed ema_layers target_obs = Inr target_embed \<and>
    length loss = length ema_layers \<and>
    (\<forall>d<length ema_layers.
       loss ! d =
         (\<Sum>b<length (obs batch). \<Sum>p<P. \<Sum>e<E.
            (pred ! b ! d ! p ! e - target_embed ! b ! d ! p ! e)\<^sup>2)
         / real (length (obs batch) * P * E))"
proof -
  let ?B = "length (obs batch)" and ?D = "length ema_layers"
  from select_time_total [OF assms(9), of "- 2"]
  obtain before_obs where sb: "select_time (obs batch) (- 2) = Inr before_obs"
    and lb: "length before_obs = ?B" by auto
  from select_time_total [OF assms(9), of "- 1"]
  obtain target_obs where st: "select_time (obs batch) (- 1) = Inr target_obs"
    and ltg: "length target_obs = ?B" by auto
  have B: "0 < ?B" using assms(8) by simp
  have bne: "before_obs \<noteq> []" using lb B by auto
  from WorldModel_forward_shape [OF assms(1,2,3,4,5) bne, of action_encoder la_seq "la_mask batch"]
  obtain pred where
    fw: "WorldModel_forward ema_patch_embed ema_layers action_encoder decoder before_obs la_seq
           (la_mask batch) = Inr pred"
    and ps: "shape4 ?B ?D P E pred" using lb by auto
  from VisionEncoder_forward_shape [OF assms(1,2,4), of target_obs]
  obtain target_embed where
    te: "VisionEncoder_forward ema_patch_embed ema_layers target_obs = Inr target_embed"
    and ts: "shape4 ?B ?D P E target_embed" using ltg by auto
  from mse_loss_none_shape [OF ps ts]
  obtain diff where ms: "mse_loss_none pred target_embed = Inr diff"
    and ds: "shape4 ?B ?D P E diff"
    and dv: "\<forall>b<?B. \<forall>d<?D. \<forall>p<P. \<forall>e<E.
              diff ! b ! d ! p ! e = (pred ! b ! d ! p ! e - target_embed ! b ! d ! p ! e)\<^sup>2"
    by blast
  have lab: "WorldModel_label ema_patch_embed ema_layers action_encoder decoder batch
             = Inr (mean_dims_023 diff)"
    using assms(7) sb st fw te ms by (simp add: WorldModel_label_def)
  have D: "0 < ?D" using assms(4) by simp
  have len: "length (mean_dims_023 diff) = ?D"
    using mean_dims_023_value(1) [OF ds B, of 0] D by simp
  have val: "mean_dims_023 diff ! d =
         (\<Sum>b<?B. \<Sum>p<P. \<Sum>e<E. (pred ! b ! d ! p ! e - target_embed ! b ! d ! p ! e)\<^sup>2)
         / real (?B * P * E)" if d: "d < ?D" for d
  proof -
    have "(\<Sum>b<?B. \<Sum>p<P. \<Sum>e<E. diff ! b ! d ! p ! e)
        = (\<Sum>b<?B. \<Sum>p<P. \<Sum>e<E. (pred ! b ! d ! p ! e - target_embed ! b ! d ! p ! e)\<^sup>2)"
      by (intro sum.cong refl) (use dv d in simp)
    then show ?thesis using mean_dims_023_value(2) [OF ds B d] by simp
  qed
  from lab sb st fw te len val show ?thesis by blast
qed

theorem C8_loss_witness:
  "WorldModel_label (\<lambda>x. map (\<lambda>img. [[img]]) x)
     [\<lambda>x. x, map (map (map (\<lambda>v. v + 1)))] (\<lambda>a. a) (\<lambda>s a m. s)
     \<lparr>obs = [[1, 3]], la = Some (), la_flat = None, la_mask = None\<rparr>
   = Inr [4, 4] \<and>
   (\<exists>loss. WorldModel_label (\<lambda>x. map (\<lambda>img. [[img]]) x)
       [\<lambda>x. x, map (map (map (\<lambda>v. v + 1)))] (\<lambda>a. a) (\<lambda>s a m. s)
       \<lparr>obs = [[1, 3]], la = Some (), la_flat = None, la_mask = None\<rparr> = Inr loss \<and>
     length loss = 2)"
proof -
  let ?pe = "\<lambda>x :: real list. map (\<lambda>img. [[img]]) x"
  let ?layers = "[\<lambda>x. x, map (map (map (\<lambda>v :: real. v + 1)))]"
  let ?batch = "\<lparr>obs = [[1, 3 :: real]], la = Some (), la_flat = None, la_mask = None\<rparr>"
  have ev: "WorldModel_label ?pe ?layers (\<lambda>a. a) (\<lambda>s a m. s) ?batch = Inr [4, 4]"
    by (simp add: WorldModel_label_def WorldModel_forward_def VisionEncoder_forward_def
        run_transformer_def view_permute_def mse_loss_none_def mean_dims_023_def mean_def
        dim1_def dim2_def dim3_def py_index_def Let_def upt_rec numeral_nat)
  have 1: "\<forall>x. shape3 (length x) 1 1 (?pe x)" by (simp add: shape3_def)
  have 2: "\<forall>l\<in>set ?layers. \<forall>B x. shape3 B 1 1 x \<longrightarrow> shape3 B 1 1 (l x)"
    by (simp add: shape3_def)
  have 3: "\<forall>B s a m. shape3 B 1 (length ?layers * 1) s \<longrightarrow>
             shape3 B 1 (length ?layers * 1) ((\<lambda>s a m. s) s a m)" by simp
  have "\<exists>loss. WorldModel_label ?pe ?layers (\<lambda>a. a) (\<lambda>s a m. s) ?batch = Inr loss \<and>
          length loss = length ?layers"
    using C8_loss_one_scalar_per_layer [of 1 1 ?pe ?layers "\<lambda>s a m. s" ?batch "()" "\<lambda>a. a",
            OF 1 2 3]
    by auto
  then have "\<exists>loss. WorldModel_label ?pe ?layers (\<lambda>a. a) (\<lambda>s a m. s) ?batch = Inr loss \<and>
          length loss = 2" by (simp add: numeral_2_eq_2)
  with ev show ?thesis by blast
qed

end
